theory Spec2Isabelle
  imports Complex_Main "HOL-Library.Sublist"
begin

section \<open>JavaScript strings\<close>

text \<open>
  A JavaScript string is a sequence of UTF-16 code units; \<open>length\<close>, \<open>substring\<close>,
  \<open>includes\<close> and the regular expressions of the source (none has the \<open>u\<close> flag) all work
  on code units. A code unit is modelled as a natural number (below 65536 in a real
  string); the CJK literals of the source are written as their code units.
\<close>

type_synonym jsstring = "nat list"

definition ascii :: "string \<Rightarrow> jsstring" where
  "ascii s = map of_char s"

text \<open>The class \<open>\s\<close>, which is also what \<open>trim\<close> strips: white space and line terminators.\<close>

definition isWhiteSpace :: "nat \<Rightarrow> bool" where
  "isWhiteSpace c =
     (c = 9 \<or> c = 10 \<or> c = 11 \<or> c = 12 \<or> c = 13 \<or> c = 32 \<or> c = 160 \<or> c = 5760 \<or>
      (8192 \<le> c \<and> c \<le> 8202) \<or> c = 8232 \<or> c = 8233 \<or> c = 8239 \<or> c = 8287 \<or>
      c = 12288 \<or> c = 65279)"

definition isLineTerminator :: "nat \<Rightarrow> bool" where
  "isLineTerminator c = (c = 10 \<or> c = 13 \<or> c = 8232 \<or> c = 8233)"

definition isUpper :: "nat \<Rightarrow> bool" where
  "isUpper c = (65 \<le> c \<and> c \<le> 90)"

definition isLower :: "nat \<Rightarrow> bool" where
  "isLower c = (97 \<le> c \<and> c \<le> 122)"

definition isDigit :: "nat \<Rightarrow> bool" where
  "isDigit c = (48 \<le> c \<and> c \<le> 57)"

definition isLetter :: "nat \<Rightarrow> bool" where
  "isLetter c = (isUpper c \<or> isLower c)"

definition isWordChar :: "nat \<Rightarrow> bool" where
  "isWordChar c = (isLetter c \<or> isDigit c \<or> c = 95)"

text \<open>
  \<open>toLowerCase\<close> folds the letters A to Z. The Unicode case tables are not modelled: the
  function is exact on strings whose cased letters are ASCII, and code units outside
  A to Z are left as they are.
\<close>

definition lowerUnit :: "nat \<Rightarrow> nat" where
  "lowerUnit c = (if isUpper c then c + 32 else c)"

definition toLowerCase :: "jsstring \<Rightarrow> jsstring" where
  "toLowerCase s = map lowerUnit s"

fun includesStr :: "jsstring \<Rightarrow> jsstring \<Rightarrow> bool" where
  "includesStr [] t = (t = [])"
| "includesStr (c # s) t = (prefix t (c # s) \<or> includesStr s t)"

definition trim :: "jsstring \<Rightarrow> jsstring" where
  "trim s = rev (dropWhile isWhiteSpace (rev (dropWhile isWhiteSpace s)))"

text \<open>\<open>s.substring(a, b)\<close> swaps its arguments when \<open>a > b\<close> and clamps both to the length.\<close>

definition substring :: "nat \<Rightarrow> nat \<Rightarrow> jsstring \<Rightarrow> jsstring" where
  "substring a b s = take (max a b - min a b) (drop (min a b) s)"

definition substringFrom :: "nat \<Rightarrow> jsstring \<Rightarrow> jsstring" where
  "substringFrom a s = drop a s"

fun join :: "jsstring \<Rightarrow> jsstring list \<Rightarrow> jsstring" where
  "join sep [] = []"
| "join sep [x] = x"
| "join sep (x # y # ys) = x @ sep @ join sep (y # ys)"

text \<open>\<open>s.split(d)\<close> for a separator of one code unit; the empty string gives one empty piece.\<close>

fun splitChar :: "nat \<Rightarrow> jsstring \<Rightarrow> jsstring list" where
  "splitChar d [] = [[]]"
| "splitChar d (c # s) =
     (if c = d then [] # splitChar d s
      else (case splitChar d s of [] \<Rightarrow> [[c]] | p # ps \<Rightarrow> (c # p) # ps))"

text \<open>
  \<open>xs.slice(start, end)\<close> on arrays: a negative index counts from the end, and both are
  clamped to the array.
\<close>

definition jsSlice :: "int \<Rightarrow> int \<Rightarrow> 'a list \<Rightarrow> 'a list" where
  "jsSlice start fin xs =
     (let len = int (length xs);
          k = (if start < 0 then max (len + start) 0 else min start len);
          final = (if fin < 0 then max (len + fin) 0 else min fin len)
      in take (nat (final - k)) (drop (nat k) xs))"

text \<open>Decimal rendering of a count inside a template string.\<close>

fun showNat :: "nat \<Rightarrow> jsstring" where
  "showNat n = (if n < 10 then [48 + n] else showNat (n div 10) @ [48 + n mod 10])"

declare showNat.simps [simp del]

section \<open>Regular expressions\<close>

text \<open>
  The regular expressions of the source are modelled by a backtracking matcher. A match
  state is the text already passed (reversed), the text still ahead and the captures made
  so far. \<open>rxm r st\<close> lists the states in which a match of \<open>r\<close> started in \<open>st\<close> can end, in
  the order in which a backtracking engine tries them: the head of the list is the match
  JavaScript reports. A greedy star tries one more iteration before stopping, a lazy star
  stops first; an iteration that consumes nothing is not taken.
\<close>

datatype rx =
    Chars "nat \<Rightarrow> bool"
  | Eps
  | Seq rx rx
  | Alt rx rx
  | Star rx
  | StarLazy rx
  | Cap nat rx
  | WordB
  | Bol bool
  | Eol bool

type_synonym captures = "(nat \<times> jsstring) list"
type_synonym mstate = "jsstring \<times> jsstring \<times> captures"

definition atWordBoundary :: "jsstring \<Rightarrow> jsstring \<Rightarrow> bool" where
  "atWordBoundary l r =
     ((case l of [] \<Rightarrow> False | a # _ \<Rightarrow> isWordChar a) \<noteq>
      (case r of [] \<Rightarrow> False | b # _ \<Rightarrow> isWordChar b))"

fun rxm :: "rx \<Rightarrow> mstate \<Rightarrow> mstate list" where
  "rxm (Chars P) (l, r, cs) =
     (case r of [] \<Rightarrow> [] | c # r' \<Rightarrow> if P c then [(c # l, r', cs)] else [])"
| "rxm Eps st = [st]"
| "rxm (Seq a b) st = concat (map (rxm b) (rxm a st))"
| "rxm (Alt a b) st = rxm a st @ rxm b st"
| "rxm (Star a) st =
     concat (map (\<lambda>st'. if length (fst (snd st')) < length (fst (snd st))
                         then rxm (Star a) st' else [])
                 (rxm a st)) @ [st]"
| "rxm (StarLazy a) st =
     st # concat (map (\<lambda>st'. if length (fst (snd st')) < length (fst (snd st))
                              then rxm (StarLazy a) st' else [])
                      (rxm a st))"
| "rxm (Cap n a) (l, r, cs) =
     map (\<lambda>(l', r', cs'). (l', r', (n, take (length r - length r') r) # cs'))
         (rxm a (l, r, cs))"
| "rxm WordB (l, r, cs) = (if atWordBoundary l r then [(l, r, cs)] else [])"
| "rxm (Bol multiline) (l, r, cs) =
     (case l of [] \<Rightarrow> [(l, r, cs)]
      | a # _ \<Rightarrow> if multiline \<and> isLineTerminator a then [(l, r, cs)] else [])"
| "rxm (Eol multiline) (l, r, cs) =
     (case r of [] \<Rightarrow> [(l, r, cs)]
      | b # _ \<Rightarrow> if multiline \<and> isLineTerminator b then [(l, r, cs)] else [])"

definition Rep1 :: "rx \<Rightarrow> rx" where
  "Rep1 a = Seq a (Star a)"

definition Rep1Lazy :: "rx \<Rightarrow> rx" where
  "Rep1Lazy a = Seq a (StarLazy a)"

definition Opt :: "rx \<Rightarrow> rx" where
  "Opt a = Alt a Eps"

definition Ch :: "nat \<Rightarrow> rx" where
  "Ch c = Chars (\<lambda>x. x = c)"

text \<open>A literal, and a literal under the \<open>i\<close> flag (the literals of the source that
  are matched so have only ASCII letters and caseless CJK characters).\<close>

fun Lit :: "jsstring \<Rightarrow> rx" where
  "Lit [] = Eps"
| "Lit (c # s) = Seq (Ch c) (Lit s)"

fun LitI :: "jsstring \<Rightarrow> rx" where
  "LitI [] = Eps"
| "LitI (c # s) = Seq (Chars (\<lambda>x. lowerUnit x = lowerUnit c)) (LitI s)"

fun Seqs :: "rx list \<Rightarrow> rx" where
  "Seqs [] = Eps"
| "Seqs [a] = a"
| "Seqs (a # b # bs) = Seq a (Seqs (b # bs))"

fun Alts :: "rx list \<Rightarrow> rx" where
  "Alts [] = Chars (\<lambda>x. False)"
| "Alts [a] = a"
| "Alts (a # b # bs) = Alt a (Alts (b # bs))"

text \<open>
  \<open>rx_at\<close> is one attempt at the current position: the matched text and the captures, if
  any. \<open>rx_scan\<close> is the loop of a global search over the text: it copies the code units
  that no match covers (\<open>Inl\<close>) and reports each match (\<open>Inr\<close>), starting again where the
  match ended, or one code unit further after an empty match.
\<close>

definition rx_at :: "rx \<Rightarrow> jsstring \<Rightarrow> jsstring \<Rightarrow> (jsstring \<times> captures) option" where
  "rx_at r l s =
     (case rxm r (l, s, []) of [] \<Rightarrow> None
      | (l', s', cs) # _ \<Rightarrow> Some (take (length s - length s') s, cs))"

function rx_scan :: "rx \<Rightarrow> jsstring \<Rightarrow> jsstring \<Rightarrow> (nat + jsstring \<times> captures) list" where
  "rx_scan r l s =
     (case rx_at r l s of
        None \<Rightarrow> (case s of [] \<Rightarrow> [] | c # s' \<Rightarrow> Inl c # rx_scan r (c # l) s')
      | Some (m, cs) \<Rightarrow>
          if length (drop (length m) s) < length s
          then Inr (m, cs) # rx_scan r (rev m @ l) (drop (length m) s)
          else Inr (m, cs) # (case s of [] \<Rightarrow> [] | c # s' \<Rightarrow> Inl c # rx_scan r (c # l) s'))"
  by pat_completeness auto
termination
  by (relation "measure (\<lambda>(r, l, s). length s)") auto

declare rx_scan.simps [simp del]

definition rx_matches :: "rx \<Rightarrow> jsstring \<Rightarrow> (jsstring \<times> captures) list" where
  "rx_matches r s = concat (map (\<lambda>x. case x of Inl c \<Rightarrow> [] | Inr m \<Rightarrow> [m]) (rx_scan r [] s))"

text \<open>\<open>s.match(/r/g) || []\<close>: the matched texts.\<close>

definition rx_match_g :: "rx \<Rightarrow> jsstring \<Rightarrow> jsstring list" where
  "rx_match_g r s = map fst (rx_matches r s)"

text \<open>\<open>s.match(/r/)\<close> without the \<open>g\<close> flag: the first match and its captures.\<close>

definition rx_match :: "rx \<Rightarrow> jsstring \<Rightarrow> (jsstring \<times> captures) option" where
  "rx_match r s = (case rx_matches r s of [] \<Rightarrow> None | m # _ \<Rightarrow> Some m)"

definition rx_test :: "rx \<Rightarrow> jsstring \<Rightarrow> bool" where
  "rx_test r s = (rx_match r s \<noteq> None)"

definition group :: "nat \<Rightarrow> captures \<Rightarrow> jsstring option" where
  "group n cs = map_of cs n"

text \<open>\<open>s.replace(/r/g, x)\<close> for a replacement text without \<open>$\<close>.\<close>

definition rx_replace_g :: "rx \<Rightarrow> jsstring \<Rightarrow> jsstring \<Rightarrow> jsstring" where
  "rx_replace_g r x s =
     concat (map (\<lambda>y. case y of Inl c \<Rightarrow> [c] | Inr m \<Rightarrow> x) (rx_scan r [] s))"

text \<open>\<open>s.replace(/r/, x)\<close> without the \<open>g\<close> flag: only the first match is replaced.\<close>

fun replaceFirst :: "jsstring \<Rightarrow> (nat + jsstring \<times> captures) list \<Rightarrow> jsstring" where
  "replaceFirst x [] = []"
| "replaceFirst x (Inl c # ys) = c # replaceFirst x ys"
| "replaceFirst x (Inr (m, cs) # ys) =
     x @ concat (map (\<lambda>y. case y of Inl c \<Rightarrow> [c] | Inr (m', cs') \<Rightarrow> m') ys)"

definition rx_replace :: "rx \<Rightarrow> jsstring \<Rightarrow> jsstring \<Rightarrow> jsstring" where
  "rx_replace r x s = replaceFirst x (rx_scan r [] s)"

text \<open>
  \<open>s.split(/r/)\<close> for a separator that has no capture and cannot match the empty string
  (every separator of the source is of this kind): the pieces between the matches, an
  empty piece before a leading and after a trailing separator included.
\<close>

fun pieces :: "(nat + jsstring \<times> captures) list \<Rightarrow> jsstring list" where
  "pieces [] = [[]]"
| "pieces (Inr m # ys) = [] # pieces ys"
| "pieces (Inl c # ys) = (case pieces ys of [] \<Rightarrow> [[c]] | p # ps \<Rightarrow> (c # p) # ps)"

definition rx_split :: "rx \<Rightarrow> jsstring \<Rightarrow> jsstring list" where
  "rx_split r s = pieces (rx_scan r [] s)"

section \<open>Data model (memoryStorage.ts)\<close>

datatype ImportanceLevel = CRITICAL | HIGH | MEDIUM | LOW

datatype MemoryCategory =
  ARCHITECTURE | CODE_STYLE | BUSINESS_RULE | API_SPEC | DATABASE | CONFIG | CONSTRAINT |
  DOCUMENTATION | OTHER

record Memory =
  mid :: jsstring
  content :: jsstring
  category :: MemoryCategory
  timestamp :: nat
  tags :: "jsstring list"
  importance :: ImportanceLevel
  relatedFiles :: "jsstring list option"
  confidence :: "rat option"

section \<open>MemoryInjector (memoryInjector.ts)\<close>

record CodeFeatures =
  filePath :: jsstring
  fileName :: jsstring
  fileDir :: jsstring
  language :: jsstring
  functionsF :: "jsstring list"
  classesF :: "jsstring list"
  importsF :: "jsstring list"
  keywordsF :: "jsstring list"
  fcontent :: jsstring

record MemoryRelevance =
  mr_memory :: Memory
  mr_score :: rat

text \<open>
  \<open>calculateRelevance\<close>. The source computes the score in double precision; every score is
  an integer, or an integer times 1.5 or 1.2, far below $2^{53}$, and the selector only
  compares scores with each other and with 10. On these values the rounded product is
  equal, less or greater exactly when the exact product is, so the score is modelled as
  a rational number.
\<close>

definition calculateRelevance :: "Memory \<Rightarrow> CodeFeatures \<Rightarrow> rat" where
  "calculateRelevance memory features =
     (let score = 0;
          score = (if importance memory = CRITICAL then score + 100 else score);
          score = (case relatedFiles memory of
                     None \<Rightarrow> score
                   | Some rf \<Rightarrow>
                       if length rf > 0 \<and>
                          list_ex (\<lambda>relatedFile. includesStr (filePath features) relatedFile \<or>
                                                 includesStr relatedFile (filePath features)) rf
                       then score + 50 else score);
          matchingTags = filter (\<lambda>tag.
              let tagLower = toLowerCase tag
              in includesStr (toLowerCase (fileName features)) tagLower \<or>
                 includesStr (toLowerCase (fileDir features)) tagLower \<or>
                 list_ex (\<lambda>f. includesStr (toLowerCase f) tagLower) (functionsF features) \<or>
                 list_ex (\<lambda>c. includesStr (toLowerCase c) tagLower) (classesF features) \<or>
                 list_ex (\<lambda>k. includesStr (toLowerCase k) tagLower) (keywordsF features))
            (tags memory);
          score = score + of_nat (length matchingTags) * 10;
          matchingFunctions = filter (\<lambda>f.
              let fLower = toLowerCase f
              in includesStr (toLowerCase (content memory)) fLower \<or>
                 list_ex (\<lambda>t. includesStr (toLowerCase t) fLower) (tags memory))
            (functionsF features);
          score = score + of_nat (length matchingFunctions) * 5;
          matchingClasses = filter (\<lambda>c.
              let cLower = toLowerCase c
              in includesStr (toLowerCase (content memory)) cLower \<or>
                 list_ex (\<lambda>t. includesStr (toLowerCase t) cLower) (tags memory))
            (classesF features);
          score = score + of_nat (length matchingClasses) * 5;
          matchingImports = filter (\<lambda>imp.
              includesStr (toLowerCase (content memory)) (toLowerCase imp))
            (importsF features);
          score = score + of_nat (length matchingImports) * 3;
          matchingKeywords = filter (\<lambda>k.
              let kLower = toLowerCase k
              in includesStr (toLowerCase (content memory)) kLower \<or>
                 list_ex (\<lambda>t. includesStr (toLowerCase t) kLower) (tags memory))
            (keywordsF features);
          score = score + of_nat (length matchingKeywords) * 2;
          contentLower = toLowerCase (content memory);
          featuresText = toLowerCase
            (join (ascii '' '') (functionsF features @ classesF features @ keywordsF features));
          commonWords = filter (\<lambda>word. length word > 3 \<and> includesStr contentLower word)
            (rx_split (Rep1 (Chars isWhiteSpace)) featuresText);
          score = score + of_nat (length commonWords) * 1
      in if importance memory = HIGH then score * (3 / 2)
         else if importance memory = MEDIUM then score * (6 / 5)
         else score)"

text \<open>
  \<open>getRelevantMemoriesForFile\<close>. The corpus is what \<open>storage.loadMemories()\<close> returned.
  \<open>extractCodeFeatures\<close> opens the document through the editor and is a parameter here:
  any feature set can come out of it. \<open>!filePath\<close> holds for a missing and for an empty
  path. \<open>Array.prototype.sort\<close> is stable, and the comparator \<open>b.score - a.score\<close> orders
  by descending score.
\<close>

definition getRelevantMemoriesForFile ::
  "(jsstring \<Rightarrow> CodeFeatures) \<Rightarrow> Memory list \<Rightarrow> jsstring option \<Rightarrow> Memory list" where
  "getRelevantMemoriesForFile extractCodeFeatures memories filePathArg =
     (if filePathArg = None \<or> filePathArg = Some []
      then filter (\<lambda>m. importance m = CRITICAL \<or> importance m = HIGH) memories
      else
        let features = extractCodeFeatures (the filePathArg);
            memoryRelevances =
              map (\<lambda>m. \<lparr>mr_memory = m, mr_score = calculateRelevance m features\<rparr>) memories;
            memoryRelevances = sort_key (\<lambda>mr. - mr_score mr) memoryRelevances;
            criticalMemories =
              filter (\<lambda>mr. importance (mr_memory mr) = CRITICAL) memoryRelevances;
            otherMemories =
              filter (\<lambda>mr. importance (mr_memory mr) \<noteq> CRITICAL \<and> mr_score mr > 10)
                memoryRelevances;
            relevantMemories = map mr_memory criticalMemories;
            remaining = 20 - int (length relevantMemories);
            relevantMemories = relevantMemories @ map mr_memory (jsSlice 0 remaining otherMemories)
        in relevantMemories)"

text \<open>\<open>compressContent\<close>, with the six filler words of the source as code units.\<close>

definition redundantWords :: "jsstring list" where
  "redundantWords = [[30340], [20102], [21644], [25110], [20197, 21450], [36824, 26377]]"

definition compressContent :: "jsstring \<Rightarrow> bool \<Rightarrow> jsstring" where
  "compressContent contentArg aggressive =
     (let compressed = trim (rx_replace_g (Rep1 (Chars isWhiteSpace)) (ascii '' '') contentArg);
          compressed = (if aggressive
                        then fold (\<lambda>word c. rx_replace_g (Lit word) [] c) redundantWords compressed
                        else compressed)
      in if length compressed > 200 \<and> aggressive
         then substring 0 100 compressed @ ascii ''...'' @
              substringFrom (length compressed - 100) compressed
         else if length compressed > 300
         then substring 0 300 compressed @ ascii ''...''
         else compressed)"

text \<open>\<open>estimateTokens\<close>: \<open>chineseChars * 1.5\<close> is exact in double precision.\<close>

definition isChineseChar :: "nat \<Rightarrow> bool" where
  "isChineseChar c = (19968 \<le> c \<and> c \<le> 40869)"

definition estimateTokens :: "jsstring \<Rightarrow> nat" where
  "estimateTokens text =
     (let chineseChars = length (rx_match_g (Chars isChineseChar) text);
          englishWords = length (filter (\<lambda>w. rx_test (Chars isLetter) w)
                                   (rx_split (Rep1 (Chars isWhiteSpace)) text))
      in nat \<lceil>(of_nat chineseChars :: rat) * (3 / 2) + of_nat englishWords\<rceil>)"

text \<open>
  \<open>compressMemories\<close>: a stable sort by importance, then the loop, which stops at the first
  record that does not fit.
\<close>

fun importanceOrder :: "ImportanceLevel \<Rightarrow> nat" where
  "importanceOrder CRITICAL = 0"
| "importanceOrder HIGH = 1"
| "importanceOrder MEDIUM = 2"
| "importanceOrder LOW = 3"

fun compressLoop :: "int \<Rightarrow> Memory list \<Rightarrow> Memory list \<Rightarrow> nat \<Rightarrow> Memory list" where
  "compressLoop maxTokens [] compressed tokenCount = compressed"
| "compressLoop maxTokens (m # rest) compressed tokenCount =
     (let compressedContent = compressContent (content m) False;
          contentTokens = estimateTokens compressedContent
      in if int (tokenCount + contentTokens) \<le> maxTokens
         then compressLoop maxTokens rest (compressed @ [m\<lparr>content := compressedContent\<rparr>])
                (tokenCount + contentTokens)
         else if importance m = CRITICAL \<and> length compressed < 20
         then compressed @ [m\<lparr>content := compressContent (content m) True\<rparr>]
         else compressed)"

definition compressMemories :: "Memory list \<Rightarrow> int \<Rightarrow> Memory list" where
  "compressMemories memories maxTokens =
     compressLoop maxTokens (sort_key (\<lambda>m. importanceOrder (importance m)) memories) [] 0"

text \<open>\<open>formatMemoriesAsContext\<close>. The bullets are U+2713, U+2022 and the hyphen.\<close>

definition contextHeader :: jsstring where
  "contextHeader =
     ascii [CHR 0x0A, CHR 0x0A] @
     ascii ''========================================'' @ [10] @
     ascii ''CURSOR MEMORY CONTEXT - PROJECT RULES'' @ [10] @
     ascii ''========================================'' @ [10] @
     ascii ''These are the project memories and rules that MUST be followed.'' @ [10] @
     ascii ''DO NOT modify or ignore these rules.'' @ [10] @
     ascii ''========================================'' @ [10, 10]"

definition contextFooter :: jsstring where
  "contextFooter =
     ascii ''========================================'' @ [10] @
     ascii ''END OF MEMORY CONTEXT'' @ [10] @
     ascii ''========================================'' @ [10, 10]"

definition entryLines :: "jsstring \<Rightarrow> Memory list \<Rightarrow> jsstring" where
  "entryLines bullet ms = concat (map (\<lambda>m. bullet @ content m @ [10]) ms)"

definition criticalEntries :: "Memory list \<Rightarrow> Memory list" where
  "criticalEntries compressedMemories =
     jsSlice 0 10 (filter (\<lambda>m. importance m = CRITICAL) compressedMemories)"

definition highEntries :: "Memory list \<Rightarrow> Memory list" where
  "highEntries compressedMemories =
     (let critical = filter (\<lambda>m. importance m = CRITICAL) compressedMemories;
          high = filter (\<lambda>m. importance m = HIGH) compressedMemories
      in if length high > 0 \<and> length critical < 10
         then jsSlice 0 (10 - int (length critical)) high else [])"

definition mediumEntries :: "Memory list \<Rightarrow> Memory list" where
  "mediumEntries compressedMemories =
     (let critical = filter (\<lambda>m. importance m = CRITICAL) compressedMemories;
          high = filter (\<lambda>m. importance m = HIGH) compressedMemories;
          medium = filter (\<lambda>m. importance m = MEDIUM) compressedMemories
      in if length medium > 0 \<and> length critical + length high < 10
         then jsSlice 0 (10 - int (length critical) - int (length high)) medium else [])"

definition formatMemoriesAsContext :: "Memory list \<Rightarrow> int \<Rightarrow> jsstring" where
  "formatMemoriesAsContext memories maxTokens =
     (if length memories = 0 then []
      else
        let compressedMemories = compressMemories memories maxTokens;
            critical = filter (\<lambda>m. importance m = CRITICAL) compressedMemories;
            high = filter (\<lambda>m. importance m = HIGH) compressedMemories;
            medium = filter (\<lambda>m. importance m = MEDIUM) compressedMemories;
            context = contextHeader;
            context = (if length critical > 0
                       then context @ ascii ''[CRITICAL] MUST FOLLOW - DO NOT VIOLATE:'' @ [10] @
                            ascii ''----------------------------------------'' @ [10] @
                            entryLines [10003, 32] (criticalEntries compressedMemories) @ [10]
                       else context);
            context = (if length high > 0 \<and> length critical < 10
                       then context @ ascii ''[HIGH] STRONGLY RECOMMENDED:'' @ [10] @
                            ascii ''----------------------------------------'' @ [10] @
                            entryLines [8226, 32] (highEntries compressedMemories) @ [10]
                       else context);
            context = (if length medium > 0 \<and> length critical + length high < 10
                       then context @ ascii ''[MEDIUM] RECOMMENDED:'' @ [10] @
                            ascii ''----------------------------------------'' @ [10] @
                            entryLines [45, 32] (mediumEntries compressedMemories) @ [10]
                       else context)
        in context @ contextFooter)"

text \<open>
  \<open>injectMemoriesToEditor\<close>. The editor is its file name, the text of its document and
  its language identifier; the state of the injector is the set of injected memory ids.
  The edit inserts the commented bundle at the start of the document. The path for
  HTML and XML returns before the ids are recorded.
\<close>

record TextEditor =
  fileNameE :: jsstring
  documentText :: jsstring
  languageId :: jsstring

definition commentLines :: "jsstring \<Rightarrow> jsstring \<Rightarrow> jsstring \<Rightarrow> jsstring" where
  "commentLines commentPrefix commentSuffix contextText =
     join [10] (map (\<lambda>line. if trim line \<noteq> [] then commentPrefix @ line @ commentSuffix else [])
                    (splitChar 10 contextText))"

definition injectMemoriesToEditor ::
  "(jsstring \<Rightarrow> CodeFeatures) \<Rightarrow> Memory list \<Rightarrow> TextEditor \<Rightarrow> jsstring set \<Rightarrow>
   TextEditor \<times> jsstring set" where
  "injectMemoriesToEditor extractCodeFeatures storedMemories editor injectedMemories =
     (let memories = getRelevantMemoriesForFile extractCodeFeatures storedMemories
                       (Some (fileNameE editor))
      in if length memories = 0 then (editor, injectedMemories)
         else
           let contextText = formatMemoriesAsContext memories 2000;
               existingText = documentText editor
           in if includesStr existingText (ascii ''CURSOR MEMORY CONTEXT'') \<or>
                 includesStr existingText
                   ([45, 45, 45, 32, 39033, 30446, 35760, 24518, 19978, 19979, 25991, 32, 45, 45, 45])
              then (editor, injectedMemories)
              else
                let lang = languageId editor
                in if lang \<in> set (map ascii [''go'', ''javascript'', ''typescript'', ''java'',
                                                ''c'', ''cpp'', ''csharp''])
                   then (editor\<lparr>documentText :=
                            commentLines (ascii ''// '') [] contextText @ [10, 10] @ existingText\<rparr>,
                         injectedMemories \<union> set (map mid memories))
                   else if lang \<in> set (map ascii [''python'', ''ruby'', ''shell''])
                   then (editor\<lparr>documentText :=
                            commentLines (ascii ''# '') [] contextText @ [10, 10] @ existingText\<rparr>,
                         injectedMemories \<union> set (map mid memories))
                   else if lang \<in> set (map ascii [''html'', ''xml''])
                   then (editor\<lparr>documentText :=
                            commentLines (ascii ''<!-- '') (ascii '' -->'') contextText @ [10, 10] @
                            existingText\<rparr>,
                         injectedMemories)
                   else (editor\<lparr>documentText :=
                            commentLines [] [] contextText @ [10, 10] @ existingText\<rparr>,
                         injectedMemories \<union> set (map mid memories)))"


subsection \<open>The shape of the selection\<close>

text \<open>
  Names for the parts of the list that \<open>getRelevantMemoriesForFile\<close> builds for a path:
  the score of a record, the critical records of the sorted corpus, the other records
  above the threshold, and the slice of them that is appended.
\<close>

definition scoreOf :: "(jsstring \<Rightarrow> CodeFeatures) \<Rightarrow> jsstring \<Rightarrow> Memory \<Rightarrow> rat" where
  "scoreOf ext fp m = calculateRelevance m (ext fp)"

definition selCritical :: "(jsstring \<Rightarrow> CodeFeatures) \<Rightarrow> jsstring \<Rightarrow> Memory list \<Rightarrow> Memory list" where
  "selCritical ext fp ms =
     filter (\<lambda>m. importance m = CRITICAL) (sort_key (\<lambda>m. - scoreOf ext fp m) ms)"

definition selOthers :: "(jsstring \<Rightarrow> CodeFeatures) \<Rightarrow> jsstring \<Rightarrow> Memory list \<Rightarrow> Memory list" where
  "selOthers ext fp ms =
     filter (\<lambda>m. importance m \<noteq> CRITICAL \<and> scoreOf ext fp m > 10)
       (sort_key (\<lambda>m. - scoreOf ext fp m) ms)"

definition selTail :: "(jsstring \<Rightarrow> CodeFeatures) \<Rightarrow> jsstring \<Rightarrow> Memory list \<Rightarrow> Memory list" where
  "selTail ext fp ms =
     jsSlice 0 (20 - int (length (filter (\<lambda>m. importance m = CRITICAL) ms))) (selOthers ext fp ms)"

text \<open>One section of the bundle: title, rule, one line per entry, blank line.\<close>

definition sectionText :: "jsstring \<Rightarrow> jsstring \<Rightarrow> Memory list \<Rightarrow> jsstring" where
  "sectionText title bullet entries =
     (if entries = [] then []
      else title @ [10] @ ascii ''----------------------------------------'' @ [10] @
           entryLines bullet entries @ [10])"

section \<open>Example data\<close>

text \<open>
  Concrete records and a concrete feature extractor, used to run the definitions: a
  file whose only extracted feature is the keyword \<open>auth\<close>.
\<close>

definition exMemory :: "jsstring \<Rightarrow> jsstring \<Rightarrow> jsstring list \<Rightarrow> ImportanceLevel \<Rightarrow> Memory" where
  "exMemory i c ts imp =
     \<lparr>mid = i, content = c, category = OTHER, timestamp = 0, tags = ts, importance = imp,
      relatedFiles = None, confidence = None\<rparr>"

definition exExtract :: "jsstring \<Rightarrow> CodeFeatures" where
  "exExtract p =
     \<lparr>filePath = p, fileName = p, fileDir = ascii ''.'', language = ascii ''typescript'',
      functionsF = [], classesF = [], importsF = [], keywordsF = [ascii ''auth''], fcontent = []\<rparr>"

definition exA :: Memory where
  "exA = exMemory (ascii ''a'') (ascii ''rule one'') [] CRITICAL"

definition exB :: Memory where
  "exB = exMemory (ascii ''b'') (ascii ''rule two'') [ascii ''auth''] CRITICAL"

definition exCritical :: "nat \<Rightarrow> Memory" where
  "exCritical i = exMemory (showNat i) (ascii ''rule'') [] CRITICAL"

definition exHighTagged :: "nat \<Rightarrow> Memory" where
  "exHighTagged i = exMemory (showNat i) (ascii ''rule'') [ascii ''auth''] HIGH"

definition exHighPlain :: "nat \<Rightarrow> Memory" where
  "exHighPlain i = exMemory (showNat i) (ascii ''rule'') [] HIGH"

definition exCorpus25 :: "Memory list" where
  "exCorpus25 =
     map exHighPlain [0, 1, 2, 3, 4, 5, 6, 7, 8, 9, 10, 11, 12, 13, 14, 15, 16, 17, 18, 19] @
     map exHighTagged [20, 21, 22, 23, 24]"

definition exCorpus21 :: "Memory list" where
  "exCorpus21 =
     map exCritical [0, 1, 2, 3, 4, 5, 6, 7, 8, 9, 10, 11, 12, 13, 14, 15, 16, 17, 18, 19, 20]"

definition exEditor :: TextEditor where
  "exEditor = \<lparr>fileNameE = ascii ''x.ts'', documentText = ascii ''let a = 1'',
               languageId = ascii ''typescript''\<rparr>"

section \<open>Specification-level notions\<close>

text \<open>
  The words of a string, read off by one scan: the maximal runs of code units that are
  not white space. \<open>wordsFrom w s\<close> carries the word begun so far.
\<close>

fun wordsFrom :: "jsstring \<Rightarrow> jsstring \<Rightarrow> jsstring list" where
  "wordsFrom w [] = (if w = [] then [] else [w])"
| "wordsFrom w (c # s) =
     (if isWhiteSpace c then (if w = [] then wordsFrom [] s else w # wordsFrom [] s)
      else wordsFrom (w @ [c]) s)"

definition spec_words :: "jsstring \<Rightarrow> jsstring list" where
  "spec_words s = wordsFrom [] s"

text \<open>The pieces that the source's \<open>split(/\s+/)\<close> produces.\<close>

definition wsPieces :: "jsstring \<Rightarrow> jsstring list" where
  "wsPieces s = rx_split (Rep1 (Chars isWhiteSpace)) s"

text \<open>
  The two forms in which the compressor keeps a record, and the estimate on which the
  budget check of a record is made.
\<close>

definition light :: "Memory \<Rightarrow> Memory" where
  "light m = m\<lparr>content := compressContent (content m) False\<rparr>"

definition aggressive :: "Memory \<Rightarrow> Memory" where
  "aggressive m = m\<lparr>content := compressContent (content m) True\<rparr>"

definition lightTokens :: "Memory \<Rightarrow> nat" where
  "lightTokens m = estimateTokens (compressContent (content m) False)"

text \<open>
  The example of the specification: 15 critical records of 202 CJK characters each,
  a different character for each record.
\<close>

definition exLong :: "nat \<Rightarrow> Memory" where
  "exLong i = exMemory (showNat i) (replicate 202 (20000 + i)) [] CRITICAL"

definition exCorpus15 :: "Memory list" where
  "exCorpus15 = map exLong [0, 1, 2, 3, 4, 5, 6, 7, 8, 9, 10, 11, 12, 13, 14]"

text \<open>
  The estimate as the specification words it: 1.5 for each CJK character plus one for
  each word without a CJK character, rounded up.
\<close>

definition spec_nonCjkWordCount :: "jsstring \<Rightarrow> nat" where
  "spec_nonCjkWordCount text =
     length (filter (\<lambda>w. \<not> list_ex isChineseChar w) (spec_words text))"

definition spec_estimate :: "jsstring \<Rightarrow> nat" where
  "spec_estimate text =
     nat \<lceil>(of_nat (length (filter isChineseChar text)) :: rat) * (3 / 2) +
          of_nat (spec_nonCjkWordCount text)\<rceil>"

text \<open>A code unit that is neither white space nor the start of a filler word.\<close>

definition plainUnit :: "nat \<Rightarrow> bool" where
  "plainUnit c = (\<not> isWhiteSpace c \<and> c \<notin> {30340, 20102, 21644, 25110, 20197, 36824})"

section \<open>CodePatternRecognizer (codePatternRecognizer.ts)\<close>
















section \<open>Example patterns\<close>




section \<open>Diagnostics and environment of the validator\<close>

datatype Severity = SevError | SevWarning | SevInfo

record ValidationIssue =
  v_type :: Severity
  v_message :: jsstring
  v_line :: "nat option"
  v_column :: "nat option"
  v_memoryId :: "jsstring option"
  v_memoryContent :: "jsstring option"

record ValidationResult =
  passed :: bool
  issues :: "ValidationIssue list"
  summary :: jsstring

record ArchitectureIssue =
  a_type :: Severity
  a_message :: jsstring
  a_file :: "jsstring option"
  a_line :: "nat option"
  a_column :: "nat option"
  a_memoryId :: "jsstring option"
  a_memoryContent :: "jsstring option"
  a_suggestion :: "jsstring option"

record ArchitectureCheckResult =
  a_passed :: bool
  a_issues :: "ArchitectureIssue list"
  a_summary :: jsstring

record ModuleDependency =
  dep_from :: jsstring
  dep_to :: jsstring

text \<open>
  What the checks read from outside the two classes: the first workspace folder of the
  editor, if any, and the functions \<open>path.relative\<close> and \<open>path.basename\<close> of the
  platform's path module, which are parameters.
\<close>

record Env =
  workspaceFolder :: "jsstring option"
  pathRelative :: "jsstring \<Rightarrow> jsstring \<Rightarrow> jsstring"
  pathBasename :: "jsstring \<Rightarrow> jsstring"

text \<open>
  The CJK words and punctuation marks of the two files, as code units:
  \<open>kwForbid\<close> U+7981 U+6B62, \<open>kwNotAllowed\<close> U+4E0D U+5141 U+8BB8, \<open>kwCannot\<close> U+4E0D U+80FD,
  \<open>kwMust\<close> U+5FC5 U+987B, \<open>kwShould\<close> U+5E94 U+8BE5, \<open>kwRequire\<close> U+8981 U+6C42,
  \<open>kwDirectory\<close> U+76EE U+5F55, \<open>kwDirStructure\<close> U+76EE U+5F55 U+7ED3 U+6784,
  \<open>kwFolder\<close> U+6587 U+4EF6 U+5939, \<open>kwModule\<close> U+6A21 U+5757, \<open>kwDependency\<close> U+4F9D U+8D56,
  \<open>kwLayer\<close> U+5C42, \<open>kwNaming\<close> U+547D U+540D, \<open>kwNamingRule\<close> U+547D U+540D U+89C4 U+8303,
  \<open>kwCamel\<close> U+9A7C U+5CF0, \<open>kwPascal\<close> U+5E15 U+65AF U+5361, \<open>kwUnderscore\<close> U+4E0B U+5212 U+7EBF,
  \<open>kwSnake\<close> U+86C7 U+5F62, \<open>kwComment\<close> U+6CE8 U+91CA, \<open>kwFunctionLength\<close> U+51FD U+6570 U+957F U+5EA6,
  \<open>kwCodeLength\<close> U+4EE3 U+7801 U+957F U+5EA6, \<open>kwIf\<close> U+5982 U+679C, \<open>kwThen\<close> U+5219,
  \<open>kwWhen\<close> U+5F53, \<open>kwTime\<close> U+65F6; the full-width colon U+FF1A, comma U+FF0C,
  semicolon U+FF1B, exclamation mark U+FF01 and question mark U+FF1F, the ideographic
  full stop U+3002 and the enumeration comma U+3001.
\<close>

definition kwForbid :: jsstring where
  "kwForbid = [31105, 27490]"

definition kwNotAllowed :: jsstring where
  "kwNotAllowed = [19981, 20801, 35768]"

definition kwCannot :: jsstring where
  "kwCannot = [19981, 33021]"

definition kwMust :: jsstring where
  "kwMust = [24517, 39035]"

definition kwShould :: jsstring where
  "kwShould = [24212, 35813]"

definition kwRequire :: jsstring where
  "kwRequire = [35201, 27714]"

definition kwDirectory :: jsstring where
  "kwDirectory = [30446, 24405]"

definition kwDirStructure :: jsstring where
  "kwDirStructure = [30446, 24405, 32467, 26500]"

definition kwFolder :: jsstring where
  "kwFolder = [25991, 20214, 22841]"

definition kwModule :: jsstring where
  "kwModule = [27169, 22359]"

definition kwDependency :: jsstring where
  "kwDependency = [20381, 36182]"

definition kwLayer :: jsstring where
  "kwLayer = [23618]"

definition kwNaming :: jsstring where
  "kwNaming = [21629, 21517]"

definition kwNamingRule :: jsstring where
  "kwNamingRule = [21629, 21517, 35268, 33539]"

definition kwCamel :: jsstring where
  "kwCamel = [39548, 23792]"

definition kwPascal :: jsstring where
  "kwPascal = [24085, 26031, 21345]"

definition kwUnderscore :: jsstring where
  "kwUnderscore = [19979, 21010, 32447]"

definition kwSnake :: jsstring where
  "kwSnake = [34503, 24418]"

definition kwComment :: jsstring where
  "kwComment = [27880, 37322]"

definition kwFunctionLength :: jsstring where
  "kwFunctionLength = [20989, 25968, 38271, 24230]"

definition kwCodeLength :: jsstring where
  "kwCodeLength = [20195, 30721, 38271, 24230]"

definition kwIf :: jsstring where
  "kwIf = [22914, 26524]"

definition kwThen :: jsstring where
  "kwThen = [21017]"

definition kwWhen :: jsstring where
  "kwWhen = [24403]"

definition kwTime :: jsstring where
  "kwTime = [26102]"

definition isColon :: "nat \<Rightarrow> bool" where
  "isColon c = (c = 65306 \<or> c = 58)"

definition notStopComma :: "nat \<Rightarrow> bool" where
  "notStopComma c = (c \<noteq> 12290 \<and> c \<noteq> 65292)"

definition notStopCommaSemi :: "nat \<Rightarrow> bool" where
  "notStopCommaSemi c = (c \<noteq> 12290 \<and> c \<noteq> 65292 \<and> c \<noteq> 65307)"

definition isItemSeparator :: "nat \<Rightarrow> bool" where
  "isItemSeparator c = (c = 65292 \<or> c = 12289 \<or> c = 44)"

definition isSentenceEnd :: "nat \<Rightarrow> bool" where
  "isSentenceEnd c = (c = 12290 \<or> c = 65281 \<or> c = 65311 \<or> c = 10)"

definition anyChar :: "nat \<Rightarrow> bool" where
  "anyChar c = (\<not> isLineTerminator c)"

definition isIdentStart :: "nat \<Rightarrow> bool" where
  "isIdentStart c = (isLetter c \<or> c = 95)"

definition isQuote :: "nat \<Rightarrow> bool" where
  "isQuote c = (c = 34 \<or> c = 39)"

text \<open>The optional first capture of a match, as \<open>m?.[1]\<close> reads it.\<close>

definition firstGroup :: "(jsstring \<times> captures) option \<Rightarrow> jsstring option" where
  "firstGroup m = (case m of None \<Rightarrow> None | Some (t, cs) \<Rightarrow> group 1 cs)"

text \<open>\<open>a || b\<close> on optional strings: the empty string counts as absent.\<close>

definition orElse :: "jsstring option \<Rightarrow> jsstring option \<Rightarrow> jsstring option" where
  "orElse a b = (case a of Some (c # s) \<Rightarrow> a | _ \<Rightarrow> b)"

definition truthy :: "jsstring option \<Rightarrow> bool" where
  "truthy a = (case a of Some (c # s) \<Rightarrow> True | _ \<Rightarrow> False)"

section \<open>Message texts\<close>

text \<open>
  The fixed texts of the diagnostics, as code units, with their meaning:
  \<open>msgArchViolation\<close>: an architecture constraint is violated;
  \<open>msgRemoveA\<close>: please remove or change the code containing;
  \<open>msgRemoveB\<close>: (end of that sentence);
  \<open>msgArchFollow\<close>: the architecture requirement should be followed;
  \<open>msgEnsureA\<close>: please make sure the code contains;
  \<open>msgEnsureB\<close>: (end of that sentence);
  \<open>msgFilePlace\<close>: the place of the file may not fit the architecture;
  \<open>msgMoveA\<close>: consider moving the file to a directory containing;
  \<open>msgMoveB\<close>: (end of that sentence);
  \<open>msgModuleName\<close>: module naming advice;
  \<open>msgDepViolation\<close>: a dependency constraint is violated;
  \<open>msgDepA\<close>: please remove the dependency on;
  \<open>msgDepB\<close>: (end of that sentence);
  \<open>msgLayerViolation\<close>: a layering rule is violated;
  \<open>msgLayerA\<close>: please remove the direct dependency on layer;
  \<open>msgLayerB\<close>: (middle of that sentence);
  \<open>msgLayerC\<close>: (end of that sentence);
  \<open>msgArchNaming\<close>: a name may not fit the architecture rules;
  \<open>msgCheckA\<close>: please check the name;
  \<open>msgCheckB\<close>: (end of that sentence);
  \<open>msgArchOk\<close>: architecture check passed, no issue;
  \<open>msgArchPass\<close>: architecture check passed without errors; warnings:;
  \<open>msgInfoCount\<close>: hints:;
  \<open>msgArchFail\<close>: architecture check failed; errors:;
  \<open>msgWarningCount\<close>: warnings:;
  \<open>msgPath\<close>: the path of the file may not fit; expected directories:;
  \<open>msgArchPattern\<close>: an architecture constraint is violated (same text as msgArchViolation);
  \<open>msgAddComment\<close>: adding comments is advised;
  \<open>msgLongA\<close>: the function may be too long;
  \<open>msgLongB\<close>: lines; splitting is advised;
  \<open>msgBusiness\<close>: a business rule is violated;
  \<open>msgBusForbid\<close>: business rule: use is forbidden of;
  \<open>msgBusMust\<close>: business rule: must contain;
  \<open>msgOr\<close>: or;
  \<open>msgBusWhen\<close>: business rule: when using;
  \<open>msgBusWhenB\<close>: must contain;
  \<open>msgForbiddenUse\<close>: forbidden content is used;
  \<open>msgSuggestUse\<close>: use is advised of;
  \<open>msgLine\<close>: line;
  \<open>msgVariable\<close>: variable;
  \<open>msgFunction\<close>: function;
  \<open>msgClass\<close>: class or struct;
  \<open>msgNotFit\<close>: does not fit;
  \<open>msgNamingRule\<close>: naming rule;
  \<open>msgOk\<close>: validation passed, no issue;
  \<open>msgPass\<close>: validation passed without errors; warnings:;
  \<open>msgFail\<close>: validation failed; errors:.
\<close>

definition msgArchViolation :: jsstring where
  "msgArchViolation =
     [36829, 21453, 20102, 26550, 26500, 32422, 26463, 58, 32]"

definition msgRemoveA :: jsstring where
  "msgRemoveA =
     [35831, 31227, 38500, 25110, 20462, 25913, 21253, 21547, 32, 34]"

definition msgRemoveB :: jsstring where
  "msgRemoveB =
     [34, 32, 30340, 20195, 30721]"

definition msgArchFollow :: jsstring where
  "msgArchFollow =
     [24314, 35758, 36981, 24490, 26550, 26500, 35201, 27714, 58, 32]"

definition msgEnsureA :: jsstring where
  "msgEnsureA =
     [35831, 30830, 20445, 20195, 30721, 21253, 21547, 32, 34]"

definition msgEnsureB :: jsstring where
  "msgEnsureB =
     [34, 32, 30456, 20851, 30340, 23454, 29616]"

definition msgFilePlace :: jsstring where
  "msgFilePlace =
     [25991, 20214, 20301, 32622, 21487, 33021, 19981, 31526, 21512, 26550, 26500, 35201,
      27714, 58, 32]"

definition msgMoveA :: jsstring where
  "msgMoveA =
     [32771, 34385, 23558, 25991, 20214, 31227, 21160, 21040, 21253, 21547, 32, 34]"

definition msgMoveB :: jsstring where
  "msgMoveB =
     [34, 32, 30340, 30446, 24405]"

definition msgModuleName :: jsstring where
  "msgModuleName =
     [27169, 22359, 21629, 21517, 24314, 35758, 58, 32]"

definition msgDepViolation :: jsstring where
  "msgDepViolation =
     [36829, 21453, 20102, 26550, 26500, 20381, 36182, 32422, 26463, 58, 32]"

definition msgDepA :: jsstring where
  "msgDepA =
     [35831, 31227, 38500, 23545, 32, 34]"

definition msgDepB :: jsstring where
  "msgDepB =
     [34, 32, 30340, 20381, 36182]"

definition msgLayerViolation :: jsstring where
  "msgLayerViolation =
     [36829, 21453, 20102, 26550, 26500, 20998, 23618, 35268, 21017, 58, 32]"

definition msgLayerA :: jsstring where
  "msgLayerA =
     [35831, 31227, 38500, 23545, 32]"

definition msgLayerB :: jsstring where
  "msgLayerB =
     [32, 23618, 30340, 30452, 25509, 20381, 36182, 65292, 20351, 29992, 32]"

definition msgLayerC :: jsstring where
  "msgLayerC =
     [32, 23618, 24212, 35813, 36890, 36807, 26381, 21153, 23618, 35775, 38382]"

definition msgArchNaming :: jsstring where
  "msgArchNaming =
     [21629, 21517, 21487, 33021, 19981, 31526, 21512, 26550, 26500, 35268, 33539, 58, 32]"

definition msgCheckA :: jsstring where
  "msgCheckA =
     [35831, 26816, 26597, 32, 34]"

definition msgCheckB :: jsstring where
  "msgCheckB =
     [34, 32, 30340, 21629, 21517, 26159, 21542, 31526, 21512, 35268, 33539]"

definition msgArchOk :: jsstring where
  "msgArchOk =
     [9989, 32, 26550, 26500, 26816, 26597, 36890, 36807, 65281, 20195, 30721, 23436, 20840,
      31526, 21512, 39033, 30446, 26550, 26500, 35201, 27714, 12290]"

definition msgArchPass :: jsstring where
  "msgArchPass =
     [9989, 32, 26550, 26500, 26816, 26597, 36890, 36807, 65288, 26080, 38169, 35823, 65289,
      32, 124, 32, 9888, 65039, 32, 35686, 21578, 58, 32]"

definition msgInfoCount :: jsstring where
  "msgInfoCount =
     [32, 124, 32, 8505, 65039, 32, 25552, 31034, 58, 32]"

definition msgArchFail :: jsstring where
  "msgArchFail =
     [10060, 32, 26550, 26500, 26816, 26597, 22833, 36133, 32, 124, 32, 55357, 56628, 32,
      38169, 35823, 58, 32]"

definition msgWarningCount :: jsstring where
  "msgWarningCount =
     [32, 124, 32, 9888, 65039, 32, 35686, 21578, 58, 32]"

definition msgPath :: jsstring where
  "msgPath =
     [25991, 20214, 36335, 24452, 21487, 33021, 19981, 31526, 21512, 26550, 26500, 35201,
      27714, 12290, 39044, 26399, 30446, 24405, 58, 32]"

definition msgArchPattern :: jsstring where
  "msgArchPattern =
     [36829, 21453, 20102, 26550, 26500, 32422, 26463, 58, 32]"

definition msgAddComment :: jsstring where
  "msgAddComment =
     [24314, 35758, 28155, 21152, 20195, 30721, 27880, 37322]"

definition msgLongA :: jsstring where
  "msgLongA =
     [20989, 25968, 21487, 33021, 36807, 38271, 65288]"

definition msgLongB :: jsstring where
  "msgLongB =
     [32, 34892, 65289, 65292, 24314, 35758, 25286, 20998]"

definition msgBusiness :: jsstring where
  "msgBusiness =
     [36829, 21453, 19994, 21153, 35268, 21017, 58, 32]"

definition msgBusForbid :: jsstring where
  "msgBusForbid =
     [36829, 21453, 20102, 19994, 21153, 35268, 21017, 58, 32, 31105, 27490, 20351, 29992, 32,
      34]"

definition msgBusMust :: jsstring where
  "msgBusMust =
     [36829, 21453, 20102, 19994, 21153, 35268, 21017, 58, 32, 24517, 39035, 21253, 21547, 32,
      34]"

definition msgOr :: jsstring where
  "msgOr =
     [34, 32, 25110, 32, 34]"

definition msgBusWhen :: jsstring where
  "msgBusWhen =
     [36829, 21453, 20102, 19994, 21153, 35268, 21017, 58, 32, 24403, 20351, 29992, 32, 34]"

definition msgBusWhenB :: jsstring where
  "msgBusWhenB =
     [34, 32, 26102, 65292, 24517, 39035, 21253, 21547, 32, 34]"

definition msgForbiddenUse :: jsstring where
  "msgForbiddenUse =
     [20351, 29992, 20102, 31105, 27490, 30340, 20869, 23481, 58, 32]"

definition msgSuggestUse :: jsstring where
  "msgSuggestUse =
     [24314, 35758, 20351, 29992, 58, 32]"

definition msgLine :: jsstring where
  "msgLine =
     [34892, 32]"

definition msgVariable :: jsstring where
  "msgVariable =
     [58, 32, 21464, 37327, 32, 34]"

definition msgFunction :: jsstring where
  "msgFunction =
     [58, 32, 20989, 25968, 32, 34]"

definition msgClass :: jsstring where
  "msgClass =
     [58, 32, 31867, 47, 32467, 26500, 20307, 32, 34]"

definition msgNotFit :: jsstring where
  "msgNotFit =
     [34, 32, 19981, 31526, 21512, 32]"

definition msgNamingRule :: jsstring where
  "msgNamingRule =
     [32, 21629, 21517, 35268, 33539]"

definition msgOk :: jsstring where
  "msgOk =
     [9989, 32, 20195, 30721, 39564, 35777, 36890, 36807, 65281, 20195, 30721, 23436, 20840,
      31526, 21512, 39033, 30446, 35760, 24518, 35201, 27714, 12290]"

definition msgPass :: jsstring where
  "msgPass =
     [9989, 32, 20195, 30721, 39564, 35777, 36890, 36807, 65288, 26080, 38169, 35823, 65289,
      32, 124, 32, 9888, 65039, 32, 35686, 21578, 58, 32]"

definition msgFail :: jsstring where
  "msgFail =
     [10060, 32, 20195, 30721, 39564, 35777, 22833, 36133, 32, 124, 32, 55357, 56628, 32,
      38169, 35823, 58, 32]"

section \<open>ArchitectureChecker (architectureChecker.ts)\<close>

text \<open>
  The five extractors of the class have one shape: the content is split into sentences,
  and for each sentence and each keyword that the sentence contains (case ignored) the
  text between the keyword's colon and the next stop, comma or end of the sentence is
  taken, trimmed. \<open>guard\<close> is the extra test of \<open>extractForbiddenDependencies\<close>.
\<close>

definition rxAfterKeyword :: "jsstring \<Rightarrow> rx" where
  "rxAfterKeyword keyword =
     Seqs [LitI keyword, Chars isColon, Cap 1 (Rep1Lazy (Chars anyChar)),
           Alt (Chars (\<lambda>c. c = 12290 \<or> c = 65292 \<or> c = 44)) (Eol False)]"

definition extractInSentence :: "(jsstring \<Rightarrow> bool) \<Rightarrow> jsstring list \<Rightarrow> jsstring \<Rightarrow> jsstring list" where
  "extractInSentence guard kwds sentence =
     concat (map (\<lambda>keyword.
        if includesStr (toLowerCase sentence) (toLowerCase keyword) \<and> guard sentence
        then (case firstGroup (rx_match (rxAfterKeyword keyword) sentence) of
                Some (c # s) \<Rightarrow> [trim (c # s)]
              | _ \<Rightarrow> [])
        else []) kwds)"

definition extractAfterKeywords :: "(jsstring \<Rightarrow> bool) \<Rightarrow> jsstring list \<Rightarrow> jsstring \<Rightarrow> jsstring list" where
  "extractAfterKeywords guard kwds contentArg =
     concat (map (extractInSentence guard kwds) (rx_split (Chars isSentenceEnd) contentArg))"

definition extractForbiddenPatternsA :: "jsstring \<Rightarrow> jsstring list" where
  "extractForbiddenPatternsA contentArg =
     extractAfterKeywords (\<lambda>s. True)
       [kwForbid, kwNotAllowed, kwCannot, ascii ''forbidden'', ascii ''not allowed'', ascii ''cannot'']
       contentArg"

definition extractRequiredPatterns :: "jsstring \<Rightarrow> jsstring list" where
  "extractRequiredPatterns contentArg =
     extractAfterKeywords (\<lambda>s. True) [kwMust, kwShould, ascii ''must'', ascii ''should''] contentArg"

definition extractDirectoryRequirements :: "jsstring \<Rightarrow> jsstring list" where
  "extractDirectoryRequirements contentArg =
     extractAfterKeywords (\<lambda>s. True) [kwDirectory, kwFolder, ascii ''directory'', ascii ''folder'']
       contentArg"

definition extractModulePatterns :: "jsstring \<Rightarrow> jsstring list" where
  "extractModulePatterns contentArg =
     extractAfterKeywords (\<lambda>s. True) [kwModule, ascii ''module''] contentArg"

definition extractForbiddenDependencies :: "jsstring \<Rightarrow> jsstring list" where
  "extractForbiddenDependencies contentArg =
     extractAfterKeywords
       (\<lambda>s. includesStr (toLowerCase s) kwDependency \<or> includesStr (toLowerCase s) (ascii ''import''))
       [kwForbid, kwNotAllowed, ascii ''forbidden'', ascii ''not allowed''] contentArg"

definition loadFilter :: "Memory list \<Rightarrow> Memory list" where
  "loadFilter allMemories =
     filter (\<lambda>m. category m = ARCHITECTURE \<or>
                 (category m = CONSTRAINT \<and> importance m = CRITICAL) \<or>
                 list_ex (\<lambda>tag. toLowerCase tag \<in> set (map ascii
                    [''architecture'', ''arch'', ''structure'', ''module'', ''layer''])) (tags m))
       allMemories"

subsection \<open>checkArchitectureConstraints\<close>

definition checkArchitectureConstraints :: "Memory list \<Rightarrow> jsstring \<Rightarrow> jsstring \<Rightarrow> ArchitectureIssue list" where
  "checkArchitectureConstraints architectureMemories code filePathArg =
     (let codeLower = toLowerCase code
      in concat (map (\<lambda>m.
           if importance m \<noteq> CRITICAL then []
           else
             let contentLower = toLowerCase (content m)
             in (if includesStr contentLower kwForbid \<or> includesStr contentLower kwNotAllowed \<or>
                    includesStr contentLower (ascii ''forbidden'') \<or>
                    includesStr contentLower (ascii ''not allowed'')
                 then concat (map (\<lambda>p.
                        if includesStr codeLower (toLowerCase p)
                        then [\<lparr>a_type = SevError,
                               a_message = msgArchViolation @ content m,
                               a_file = None, a_line = None, a_column = None,
                               a_memoryId = Some (mid m), a_memoryContent = Some (content m),
                               a_suggestion = Some (msgRemoveA @ p @ msgRemoveB)\<rparr>]
                        else []) (extractForbiddenPatternsA (content m)))
                 else []) @
                (if includesStr contentLower kwMust \<or> includesStr contentLower kwShould \<or>
                    includesStr contentLower (ascii ''must'') \<or>
                    includesStr contentLower (ascii ''should'')
                 then concat (map (\<lambda>p.
                        if \<not> includesStr codeLower (toLowerCase p)
                        then [\<lparr>a_type = SevWarning,
                               a_message = msgArchFollow @ content m,
                               a_file = None, a_line = None, a_column = None,
                               a_memoryId = Some (mid m), a_memoryContent = Some (content m),
                               a_suggestion = Some (msgEnsureA @ p @ msgEnsureB)\<rparr>]
                        else []) (extractRequiredPatterns (content m)))
                 else []))
         architectureMemories))"

subsection \<open>checkModuleDivision\<close>

definition shouldBeInDirectory :: "jsstring \<Rightarrow> jsstring \<Rightarrow> jsstring \<Rightarrow> bool" where
  "shouldBeInDirectory fileNameArg code dir =
     (let dirLower = toLowerCase dir
      in if includesStr dirLower (ascii ''controller'') \<and>
            (includesStr (toLowerCase fileNameArg) (ascii ''controller'') \<or>
             includesStr (toLowerCase code) (ascii ''controller'')) then True
         else if includesStr dirLower (ascii ''service'') \<and>
            (includesStr (toLowerCase fileNameArg) (ascii ''service'') \<or>
             includesStr (toLowerCase code) (ascii ''service'')) then True
         else if includesStr dirLower (ascii ''model'') \<and>
            (includesStr (toLowerCase fileNameArg) (ascii ''model'') \<or>
             includesStr (toLowerCase code) (ascii ''model'')) then True
         else False)"

definition hasModulePattern :: "jsstring \<Rightarrow> jsstring \<Rightarrow> bool" where
  "hasModulePattern code p = includesStr (toLowerCase code) (toLowerCase p)"

definition checkModuleDivision ::
  "Env \<Rightarrow> Memory list \<Rightarrow> jsstring \<Rightarrow> jsstring \<Rightarrow> jsstring \<Rightarrow> ArchitectureIssue list" where
  "checkModuleDivision env architectureMemories code filePathArg lang =
     (case workspaceFolder env of
        None \<Rightarrow> []
      | Some ws \<Rightarrow>
          let fileNameV = pathBasename env filePathArg;
              relativePath = pathRelative env ws filePathArg
          in concat (map (\<lambda>m.
               if category m \<noteq> ARCHITECTURE then []
               else
                 let contentLower = toLowerCase (content m)
                 in (if includesStr contentLower kwDirectory \<or> includesStr contentLower kwFolder \<or>
                        includesStr contentLower (ascii ''directory'') \<or>
                        includesStr contentLower (ascii ''folder'')
                     then concat (map (\<lambda>dir.
                            if \<not> includesStr (toLowerCase relativePath) (toLowerCase dir) \<and>
                               shouldBeInDirectory fileNameV code dir
                            then [\<lparr>a_type = SevWarning,
                                   a_message = msgFilePlace @ content m,
                                   a_file = Some filePathArg, a_line = None, a_column = None,
                                   a_memoryId = Some (mid m), a_memoryContent = Some (content m),
                                   a_suggestion = Some (msgMoveA @ dir @ msgMoveB)\<rparr>]
                            else []) (extractDirectoryRequirements (content m)))
                     else []) @
                    (if includesStr contentLower kwModule \<or> includesStr contentLower (ascii ''module'')
                     then concat (map (\<lambda>p.
                            if \<not> includesStr (toLowerCase fileNameV) (toLowerCase p) \<and>
                               \<not> hasModulePattern code p
                            then [\<lparr>a_type = SevInfo,
                                   a_message = msgModuleName @ content m,
                                   a_file = Some filePathArg, a_line = None, a_column = None,
                                   a_memoryId = Some (mid m), a_memoryContent = Some (content m),
                                   a_suggestion = None\<rparr>]
                            else []) (extractModulePatterns (content m)))
                     else []))
             architectureMemories))"

subsection \<open>checkDependencies\<close>

definition rxGoImport :: rx where
  "rxGoImport =
     Seqs [Lit (ascii ''import''), Rep1 (Chars isWhiteSpace),
           Alt (Seqs [Ch 34, Cap 1 (Rep1 (Chars (\<lambda>c. c \<noteq> 34))), Ch 34])
               (Seqs [Ch 40, Cap 2 (Rep1 (Chars (\<lambda>c. c \<noteq> 41))), Ch 41])]"

definition rxQuoted :: rx where
  "rxQuoted = Seqs [Ch 34, Cap 1 (Rep1 (Chars (\<lambda>c. c \<noteq> 34))), Ch 34]"

definition rxParenthesized :: rx where
  "rxParenthesized = Seqs [Ch 40, Cap 1 (Rep1 (Chars (\<lambda>c. c \<noteq> 41))), Ch 41]"

definition rxFrom :: rx where
  "rxFrom =
     Seqs [Lit (ascii ''from''), Rep1 (Chars isWhiteSpace), Chars isQuote,
           Cap 1 (Rep1 (Chars (\<lambda>c. \<not> isQuote c))), Chars isQuote]"

definition rxRequireCall :: rx where
  "rxRequireCall =
     Seqs [Lit (ascii ''require(''), Chars isQuote,
           Cap 1 (Rep1 (Chars (\<lambda>c. \<not> isQuote c))), Chars isQuote, Ch 41]"

definition rxJsImport :: rx where
  "rxJsImport =
     Alt (Seqs [Alt (Lit (ascii ''import'')) (Lit (ascii ''require'')), Rep1 (Chars isWhiteSpace),
                Star (Chars anyChar), Lit (ascii ''from''), Rep1 (Chars isWhiteSpace), Chars isQuote,
                Cap 1 (Rep1 (Chars (\<lambda>c. \<not> isQuote c))), Chars isQuote])
         (Seqs [Lit (ascii ''require(''), Chars isQuote,
                Cap 2 (Rep1 (Chars (\<lambda>c. \<not> isQuote c))), Chars isQuote, Ch 41])"

text \<open>\<open>pkg.split(/\s+/)[0]\<close>: the first piece, which always exists.\<close>

definition firstPiece :: "jsstring \<Rightarrow> jsstring" where
  "firstPiece s = (case rx_split (Rep1 (Chars isWhiteSpace)) s of [] \<Rightarrow> [] | p # ps \<Rightarrow> p)"

definition extractDependencies :: "jsstring \<Rightarrow> jsstring \<Rightarrow> ModuleDependency list" where
  "extractDependencies code lang =
     (if lang = ascii ''go''
      then concat (map (\<lambda>m.
             case orElse (firstGroup (rx_match rxQuoted m)) (firstGroup (rx_match rxParenthesized m)) of
               Some (c # s) \<Rightarrow> [\<lparr>dep_from = [], dep_to = firstPiece (c # s)\<rparr>]
             | _ \<Rightarrow> []) (rx_match_g rxGoImport code))
      else []) @
     (if lang = ascii ''javascript'' \<or> lang = ascii ''typescript''
      then concat (map (\<lambda>m.
             case orElse (firstGroup (rx_match rxFrom m)) (firstGroup (rx_match rxRequireCall m)) of
               Some (c # s) \<Rightarrow> [\<lparr>dep_from = [], dep_to = c # s\<rparr>]
             | _ \<Rightarrow> []) (rx_match_g rxJsImport code))
      else [])"

record LayerRule =
  rule_from :: jsstring
  rule_to :: jsstring
  rule_allowed :: bool

definition extractLayerRules :: "jsstring \<Rightarrow> LayerRule list" where
  "extractLayerRules contentArg =
     (if includesStr (toLowerCase contentArg) (ascii ''controller'') \<and>
         includesStr (toLowerCase contentArg) (ascii ''model'')
      then (if includesStr (toLowerCase contentArg) kwCannot \<or>
               includesStr (toLowerCase contentArg) kwForbid
            then [\<lparr>rule_from = ascii ''controller'', rule_to = ascii ''model'', rule_allowed = False\<rparr>]
            else [])
      else [])"

fun layerLoop :: "LayerRule \<Rightarrow> ModuleDependency list \<Rightarrow> jsstring option" where
  "layerLoop rule [] = None"
| "layerLoop rule (dep # deps) =
     (if includesStr (toLowerCase (dep_to dep)) (toLowerCase (rule_to rule)) \<and> \<not> rule_allowed rule
      then Some (msgLayerA @ rule_to rule @ msgLayerB @ rule_from rule @ msgLayerC)
      else layerLoop rule deps)"

definition checkLayerRuleViolation ::
  "Env \<Rightarrow> ModuleDependency list \<Rightarrow> LayerRule \<Rightarrow> jsstring \<Rightarrow> jsstring option" where
  "checkLayerRuleViolation env dependencies rule filePathArg =
     (let fileNameV = toLowerCase (pathBasename env filePathArg)
      in if \<not> includesStr fileNameV (toLowerCase (rule_from rule)) then None
         else layerLoop rule dependencies)"

definition checkDependencies ::
  "Env \<Rightarrow> Memory list \<Rightarrow> jsstring \<Rightarrow> jsstring \<Rightarrow> jsstring \<Rightarrow> ArchitectureIssue list" where
  "checkDependencies env architectureMemories code filePathArg lang =
     (let dependencies = extractDependencies code lang
      in concat (map (\<lambda>m.
           if category m \<noteq> ARCHITECTURE then []
           else
             let contentLower = toLowerCase (content m)
             in (if includesStr contentLower kwForbid \<and>
                    (includesStr contentLower kwDependency \<or> includesStr contentLower (ascii ''import'') \<or>
                     includesStr contentLower (ascii ''dependency''))
                 then (let forbiddenDeps = extractForbiddenDependencies (content m)
                       in concat (map (\<lambda>dep. concat (map (\<lambda>forbiddenDep.
                            if includesStr (toLowerCase (dep_to dep)) (toLowerCase forbiddenDep)
                            then [\<lparr>a_type = SevError,
                                   a_message = msgDepViolation @ content m,
                                   a_file = Some filePathArg, a_line = None, a_column = None,
                                   a_memoryId = Some (mid m), a_memoryContent = Some (content m),
                                   a_suggestion = Some (msgDepA @ dep_to dep @ msgDepB)\<rparr>]
                            else []) forbiddenDeps)) dependencies))
                 else []) @
                (if includesStr contentLower kwLayer \<or> includesStr contentLower (ascii ''layer'')
                 then concat (map (\<lambda>rule.
                        case checkLayerRuleViolation env dependencies rule filePathArg of
                          Some (c # s) \<Rightarrow>
                            [\<lparr>a_type = SevError,
                              a_message = msgLayerViolation @ content m,
                              a_file = Some filePathArg, a_line = None, a_column = None,
                              a_memoryId = Some (mid m), a_memoryContent = Some (content m),
                              a_suggestion = Some (c # s)\<rparr>]
                        | _ \<Rightarrow> []) (extractLayerRules (content m)))
                 else []))
         architectureMemories))"

subsection \<open>checkArchitectureNaming\<close>

definition extractNamingRules :: "jsstring \<Rightarrow> jsstring list" where
  "extractNamingRules contentArg =
     (if includesStr (toLowerCase contentArg) (ascii ''camelcase'') \<or>
         includesStr (toLowerCase contentArg) kwCamel then [ascii ''camelCase''] else []) @
     (if includesStr (toLowerCase contentArg) (ascii ''pascalcase'') \<or>
         includesStr (toLowerCase contentArg) kwPascal then [ascii ''PascalCase''] else []) @
     (if includesStr (toLowerCase contentArg) (ascii ''snake_case'') \<or>
         includesStr (toLowerCase contentArg) kwUnderscore then [ascii ''snake_case''] else [])"

definition rxIdent :: rx where
  "rxIdent = Seq (Chars isIdentStart) (Star (Chars isWordChar))"

definition rxUpperIdent :: rx where
  "rxUpperIdent = Seq (Chars isUpper) (Star (Chars isWordChar))"

definition rxFuncDecl :: rx where
  "rxFuncDecl =
     Seqs [Lit (ascii ''func''), Rep1 (Chars isWhiteSpace), Cap 1 rxIdent, Star (Chars isWhiteSpace),
           Ch 40]"

definition rxFuncName :: rx where
  "rxFuncName = Seqs [Lit (ascii ''func''), Rep1 (Chars isWhiteSpace), Cap 1 rxIdent]"

definition rxTypeDecl :: rx where
  "rxTypeDecl =
     Seqs [Lit (ascii ''type''), Rep1 (Chars isWhiteSpace), Cap 1 rxUpperIdent,
           Rep1 (Chars isWhiteSpace)]"

definition rxTypeName :: rx where
  "rxTypeName = Seqs [Lit (ascii ''type''), Rep1 (Chars isWhiteSpace), Cap 1 rxUpperIdent]"

definition rxJsDecl :: rx where
  "rxJsDecl =
     Alts [Seqs [Lit (ascii ''function''), Rep1 (Chars isWhiteSpace), Cap 1 rxIdent],
           Seqs [Lit (ascii ''const''), Rep1 (Chars isWhiteSpace), Cap 2 rxIdent,
                 Star (Chars isWhiteSpace), Ch 61, Star (Chars isWhiteSpace),
                 Opt (Seq (Lit (ascii ''async'')) (Rep1 (Chars isWhiteSpace))), Ch 40],
           Seqs [Lit (ascii ''class''), Rep1 (Chars isWhiteSpace), Cap 3 rxUpperIdent]]"

definition rxJsName :: rx where
  "rxJsName =
     Alts [Seqs [Lit (ascii ''function''), Rep1 (Chars isWhiteSpace), Cap 1 rxIdent],
           Seqs [Lit (ascii ''const''), Rep1 (Chars isWhiteSpace), Cap 2 rxIdent],
           Seqs [Lit (ascii ''class''), Rep1 (Chars isWhiteSpace), Cap 3 rxUpperIdent]]"

definition groupOf :: "nat \<Rightarrow> (jsstring \<times> captures) option \<Rightarrow> jsstring option" where
  "groupOf n m = (case m of None \<Rightarrow> None | Some (t, cs) \<Rightarrow> group n cs)"

definition extractIdentifiers :: "jsstring \<Rightarrow> jsstring \<Rightarrow> jsstring list" where
  "extractIdentifiers code lang =
     (if lang = ascii ''go''
      then concat (map (\<lambda>m. case firstGroup (rx_match rxFuncName m) of
                               Some (c # s) \<Rightarrow> [c # s] | _ \<Rightarrow> [])
                       (rx_match_g rxFuncDecl code)) @
           concat (map (\<lambda>m. case firstGroup (rx_match rxTypeName m) of
                               Some (c # s) \<Rightarrow> [c # s] | _ \<Rightarrow> [])
                       (rx_match_g rxTypeDecl code))
      else []) @
     (if lang = ascii ''javascript'' \<or> lang = ascii ''typescript''
      then concat (map (\<lambda>m.
             case orElse (groupOf 1 (rx_match rxJsName m))
                    (orElse (groupOf 2 (rx_match rxJsName m)) (groupOf 3 (rx_match rxJsName m))) of
               Some (c # s) \<Rightarrow> [c # s] | _ \<Rightarrow> [])
             (rx_match_g rxJsDecl code))
      else [])"

definition isAlnum :: "nat \<Rightarrow> bool" where
  "isAlnum c = (isLetter c \<or> isDigit c)"

definition rxCamel :: rx where
  "rxCamel = Seqs [Bol False, Chars isLower, Star (Chars isAlnum), Eol False]"

definition rxPascal :: rx where
  "rxPascal = Seqs [Bol False, Chars isUpper, Star (Chars isAlnum), Eol False]"

definition rxSnake :: rx where
  "rxSnake =
     Seqs [Bol False, Chars isLower, Star (Chars (\<lambda>c. isLower c \<or> isDigit c \<or> c = 95)), Eol False]"

definition rxUpperSnake :: rx where
  "rxUpperSnake =
     Seqs [Bol False, Chars isUpper, Star (Chars (\<lambda>c. isUpper c \<or> isDigit c \<or> c = 95)), Eol False]"

definition matchesNamingRule :: "jsstring \<Rightarrow> jsstring \<Rightarrow> bool" where
  "matchesNamingRule identifier rule =
     (if rule = ascii ''camelCase'' then rx_test rxCamel identifier
      else if rule = ascii ''PascalCase'' then rx_test rxPascal identifier
      else if rule = ascii ''snake_case'' then rx_test rxSnake identifier
      else True)"

definition checkArchitectureNaming ::
  "Memory list \<Rightarrow> jsstring \<Rightarrow> jsstring \<Rightarrow> jsstring \<Rightarrow> ArchitectureIssue list" where
  "checkArchitectureNaming architectureMemories code filePathArg lang =
     concat (map (\<lambda>m.
       if category m \<noteq> ARCHITECTURE \<and> category m \<noteq> CODE_STYLE then []
       else
         let contentLower = toLowerCase (content m)
         in if includesStr contentLower kwNaming \<or> includesStr contentLower (ascii ''naming'') \<or>
               includesStr contentLower kwNamingRule
            then (let namingRules = extractNamingRules (content m);
                      identifiers = extractIdentifiers code lang
                  in concat (map (\<lambda>identifier. concat (map (\<lambda>rule.
                       if \<not> matchesNamingRule identifier rule
                       then [\<lparr>a_type = SevWarning,
                              a_message = msgArchNaming @ content m,
                              a_file = Some filePathArg, a_line = None, a_column = None,
                              a_memoryId = Some (mid m), a_memoryContent = Some (content m),
                              a_suggestion = Some (msgCheckA @ identifier @ msgCheckB)\<rparr>]
                       else []) namingRules)) identifiers))
            else [])
       architectureMemories)"

subsection \<open>checkArchitecture and the cache of the checker\<close>

text \<open>
  The state of the checker: the cached records, the time of the last load, and the
  loads that have been started and whose continuation has not run yet (the constructor
  starts one without awaiting it). Each holds the list that \<open>storage.loadMemories()\<close>
  returned when the load was started; its continuation installs the filtered list and
  the current time. Times are milliseconds, as \<open>Date.now()\<close> gives them.
\<close>

record ArchitectureChecker =
  architectureMemoriesOf :: "Memory list"
  lastUpdateTime :: int
  pendingLoads :: "Memory list list"

definition updateInterval :: int where
  "updateInterval = 10000"

definition newArchitectureChecker :: "Memory list \<Rightarrow> ArchitectureChecker" where
  "newArchitectureChecker stored =
     \<lparr>architectureMemoriesOf = [], lastUpdateTime = 0, pendingLoads = [stored]\<rparr>"

definition runPendingLoads :: "int \<Rightarrow> ArchitectureChecker \<Rightarrow> ArchitectureChecker" where
  "runPendingLoads now ac =
     fold (\<lambda>allMemories a. a\<lparr>architectureMemoriesOf := loadFilter allMemories, lastUpdateTime := now\<rparr>)
          (pendingLoads ac) (ac\<lparr>pendingLoads := []\<rparr>)"

definition countType :: "Severity \<Rightarrow> Severity list \<Rightarrow> nat" where
  "countType t ts = length (filter (\<lambda>x. x = t) ts)"

definition archSummary :: "ArchitectureIssue list \<Rightarrow> jsstring" where
  "archSummary is =
     (let errorCount = countType SevError (map a_type is);
          warningCount = countType SevWarning (map a_type is);
          infoCount = countType SevInfo (map a_type is)
      in if errorCount = 0 \<and> length is = 0 then msgArchOk
         else if errorCount = 0
         then msgArchPass @ showNat warningCount @ msgInfoCount @ showNat infoCount
         else msgArchFail @ showNat errorCount @ msgWarningCount @ showNat warningCount @
              msgInfoCount @ showNat infoCount)"

text \<open>
  \<open>checkArchitecture\<close> at time \<open>now\<close>, with \<open>stored\<close> what the storage returns. When the
  cache is older than the interval a load is started and awaited, so every load runs
  before the four checks. Otherwise the first two checks run on the cache as it is; the
  first \<open>await\<close> then lets the pending loads run, and the last two checks see their result.
\<close>

definition checkArchitecture ::
  "Env \<Rightarrow> Memory list \<Rightarrow> int \<Rightarrow> jsstring \<Rightarrow> jsstring \<Rightarrow> jsstring \<Rightarrow> ArchitectureChecker \<Rightarrow>
   ArchitectureCheckResult \<times> ArchitectureChecker" where
  "checkArchitecture env stored now code filePathArg lang ac =
     (let ac1 = (if now - lastUpdateTime ac > updateInterval
                 then runPendingLoads now (ac\<lparr>pendingLoads := pendingLoads ac @ [stored]\<rparr>)
                 else ac);
          constraintIssues = checkArchitectureConstraints (architectureMemoriesOf ac1) code filePathArg;
          moduleIssues = checkModuleDivision env (architectureMemoriesOf ac1) code filePathArg lang;
          ac2 = runPendingLoads now ac1;
          dependencyIssues = checkDependencies env (architectureMemoriesOf ac2) code filePathArg lang;
          namingIssues = checkArchitectureNaming (architectureMemoriesOf ac2) code filePathArg lang;
          is = constraintIssues @ moduleIssues @ dependencyIssues @ namingIssues
      in (\<lparr>a_passed = (countType SevError (map a_type is) = 0), a_issues = is,
           a_summary = archSummary is\<rparr>, ac2))"

section \<open>CodeValidator (codeValidator.ts)\<close>

subsection \<open>Extractors\<close>

text \<open>
  \<open>extractForbiddenPatterns\<close>, \<open>extractForbiddenItems\<close> and \<open>extractRequiredItems\<close> have one
  shape: every match of the keyword, a colon, white space and a run of code units up to
  the next stop or comma is taken, its prefix up to the white space removed, and the
  rest trimmed; an empty rest is dropped.
\<close>

definition rxKeywordItem :: "jsstring \<Rightarrow> (nat \<Rightarrow> bool) \<Rightarrow> rx" where
  "rxKeywordItem keyword inItem =
     Seqs [Lit keyword, Chars isColon, Star (Chars isWhiteSpace), Cap 1 (Rep1 (Chars inItem))]"

definition rxKeywordPrefix :: "jsstring \<Rightarrow> rx" where
  "rxKeywordPrefix keyword = Seqs [Lit keyword, Chars isColon, Star (Chars isWhiteSpace)]"

definition extractItems :: "jsstring \<Rightarrow> jsstring \<Rightarrow> jsstring list" where
  "extractItems keyword contentArg =
     concat (map (\<lambda>m. let item = trim (rx_replace (rxKeywordPrefix keyword) [] m)
                      in if item \<noteq> [] then [item] else [])
                 (rx_match_g (rxKeywordItem keyword notStopComma) contentArg))"

definition extractForbiddenPatterns :: "jsstring \<Rightarrow> jsstring list" where
  "extractForbiddenPatterns contentArg = extractItems kwForbid contentArg"

definition extractForbiddenItems :: "jsstring \<Rightarrow> jsstring list" where
  "extractForbiddenItems contentArg = extractItems kwForbid contentArg"

definition extractRequiredItems :: "jsstring \<Rightarrow> jsstring list" where
  "extractRequiredItems contentArg = extractItems kwMust contentArg"

subsection \<open>validateArchitecture\<close>

definition rxDirStructure :: rx where
  "rxDirStructure =
     Seqs [Lit kwDirStructure, Chars isColon, Star (Chars isWhiteSpace), Cap 1 (Rep1 (Chars anyChar))]"

definition validateArchitecture :: "Memory list \<Rightarrow> jsstring \<Rightarrow> jsstring \<Rightarrow> ValidationIssue list" where
  "validateArchitecture memories code filePathArg =
     concat (map (\<lambda>m.
       (if includesStr (content m) kwDirStructure \<or> includesStr (content m) kwDirectory
        then (case firstGroup (rx_match rxDirStructure (content m)) of
                None \<Rightarrow> []
              | Some g \<Rightarrow>
                  let expectedDirs = map trim (splitChar 44 g);
                      fileDirV = join [47] (jsSlice 0 (- 1) (splitChar 47 filePathArg));
                      isInExpectedDir = list_ex (\<lambda>dir. includesStr fileDirV dir) expectedDirs
                  in if \<not> isInExpectedDir \<and> length expectedDirs > 0
                     then [\<lparr>v_type = SevWarning,
                            v_message = msgPath @ join (ascii '', '') expectedDirs,
                            v_line = None, v_column = None,
                            v_memoryId = Some (mid m), v_memoryContent = Some (content m)\<rparr>]
                     else [])
        else []) @
       (if includesStr (content m) kwForbid \<or> includesStr (content m) kwNotAllowed
        then concat (map (\<lambda>p.
               if includesStr code p
               then [\<lparr>v_type = SevError, v_message = msgArchPattern @ p,
                      v_line = None, v_column = None,
                      v_memoryId = Some (mid m), v_memoryContent = Some (content m)\<rparr>]
               else []) (extractForbiddenPatterns (content m)))
        else []))
     (filter (\<lambda>m. category m = ARCHITECTURE \<and> importance m = CRITICAL) memories))"

subsection \<open>validateNaming\<close>

record NamingStyle =
  ns_style :: jsstring
  ns_importance :: ImportanceLevel

record NamingRules =
  nr_variable :: jsstring
  nr_function :: jsstring
  nr_class :: jsstring
  nr_constant :: jsstring

definition getDefaultNamingStyle :: "jsstring \<Rightarrow> jsstring option" where
  "getDefaultNamingStyle lang =
     map_of [(ascii ''go'', ascii ''camelCase''), (ascii ''java'', ascii ''camelCase''),
             (ascii ''javascript'', ascii ''camelCase''), (ascii ''typescript'', ascii ''camelCase''),
             (ascii ''python'', ascii ''snake_case''), (ascii ''csharp'', ascii ''camelCase'')]
       (toLowerCase lang)"

definition extractNamingStyle :: "jsstring \<Rightarrow> NamingStyle option" where
  "extractNamingStyle contentArg =
     (if includesStr contentArg kwCamel \<or> includesStr contentArg (ascii ''camelCase'')
      then Some \<lparr>ns_style = ascii ''camelCase'', ns_importance = HIGH\<rparr>
      else if includesStr contentArg kwSnake \<or> includesStr contentArg (ascii ''snake_case'')
      then Some \<lparr>ns_style = ascii ''snake_case'', ns_importance = HIGH\<rparr>
      else if includesStr contentArg kwPascal \<or> includesStr contentArg (ascii ''PascalCase'')
      then Some \<lparr>ns_style = ascii ''PascalCase'', ns_importance = HIGH\<rparr>
      else None)"

definition getNamingRulesForLanguage :: "jsstring \<Rightarrow> jsstring \<Rightarrow> NamingRules" where
  "getNamingRulesForLanguage lang expectedStyle =
     (if lang = ascii ''go''
      then \<lparr>nr_variable = ascii ''camelCase'',
            nr_function = (if expectedStyle = ascii ''PascalCase'' then ascii ''PascalCase''
                           else ascii ''camelCase''),
            nr_class = ascii ''PascalCase'', nr_constant = ascii ''camelCase''\<rparr>
      else if lang = ascii ''java'' \<or> lang = ascii ''csharp''
      then \<lparr>nr_variable = ascii ''camelCase'', nr_function = ascii ''camelCase'',
            nr_class = ascii ''PascalCase'', nr_constant = ascii ''UPPER_SNAKE_CASE''\<rparr>
      else if lang = ascii ''python''
      then \<lparr>nr_variable = ascii ''snake_case'', nr_function = ascii ''snake_case'',
            nr_class = ascii ''PascalCase'', nr_constant = ascii ''UPPER_SNAKE_CASE''\<rparr>
      else if lang = ascii ''javascript'' \<or> lang = ascii ''typescript''
      then \<lparr>nr_variable = ascii ''camelCase'', nr_function = ascii ''camelCase'',
            nr_class = ascii ''PascalCase'', nr_constant = ascii ''UPPER_SNAKE_CASE''\<rparr>
      else \<lparr>nr_variable = expectedStyle, nr_function = expectedStyle,
            nr_class = ascii ''PascalCase'', nr_constant = ascii ''UPPER_SNAKE_CASE''\<rparr>)"

definition rxCamelHump :: rx where
  "rxCamelHump =
     Seqs [Bol False, Chars isLower, Star (Chars isAlnum), Chars isUpper, Star (Chars isAlnum),
           Eol False]"

definition isValidNaming :: "jsstring \<Rightarrow> jsstring \<Rightarrow> bool" where
  "isValidNaming name style =
     (if name \<in> set (map ascii [''String'', ''Int'', ''Bool'', ''Error'', ''Context'', ''Request'',
                                 ''Response'', ''true'', ''false'', ''nil'', ''null'', ''undefined'',
                                 ''this'', ''self''])
      then True
      else if style = ascii ''camelCase'' then rx_test rxCamel name \<or> rx_test rxCamelHump name
      else if style = ascii ''PascalCase'' then rx_test rxPascal name
      else if style = ascii ''snake_case'' then rx_test rxSnake name
      else if style = ascii ''UPPER_SNAKE_CASE'' then rx_test rxUpperSnake name
      else True)"

definition rxWord :: rx where
  "rxWord = Rep1 (Chars isWordChar)"

definition variablePatterns :: "rx list" where
  "variablePatterns =
     [Seqs [WordB, Alts [Lit (ascii ''var''), Lit (ascii ''let''), Lit (ascii ''const'')],
            Rep1 (Chars isWhiteSpace), Cap 1 rxIdent],
      Seqs [WordB, Cap 1 rxIdent, Star (Chars isWhiteSpace), Chars (\<lambda>c. c = 58 \<or> c = 61),
            Star (Chars isWhiteSpace), Chars (\<lambda>c. c \<noteq> 61)],
      Seqs [WordB,
            Cap 1 (Alts [Lit (ascii ''int''), Lit (ascii ''string''), Lit (ascii ''float''),
                         Lit (ascii ''bool''), Lit (ascii ''char'')]),
            Rep1 (Chars isWhiteSpace), Cap 2 rxIdent]]"

definition functionPatterns :: "rx list" where
  "functionPatterns =
     [Seqs [WordB, Lit (ascii ''func''), Rep1 (Chars isWhiteSpace), Cap 1 rxWord,
            Star (Chars isWhiteSpace), Ch 40],
      Seqs [WordB, Lit (ascii ''function''), Rep1 (Chars isWhiteSpace), Cap 1 rxWord,
            Star (Chars isWhiteSpace), Ch 40],
      Seqs [WordB, Lit (ascii ''def''), Rep1 (Chars isWhiteSpace), Cap 1 rxWord,
            Star (Chars isWhiteSpace), Ch 40],
      Seqs [WordB,
            Opt (Alts [Lit (ascii ''public''), Lit (ascii ''private''), Lit (ascii ''protected'')]),
            Star (Chars isWhiteSpace), Opt (Lit (ascii ''static'')), Star (Chars isWhiteSpace),
            Alts [Lit (ascii ''void''), Lit (ascii ''int''), Lit (ascii ''string''), Lit (ascii ''bool'')],
            Rep1 (Chars isWhiteSpace), Cap 1 rxWord, Star (Chars isWhiteSpace), Ch 40],
      Seqs [Lit (ascii ''const''), Rep1 (Chars isWhiteSpace), Cap 1 rxWord, Star (Chars isWhiteSpace),
            Ch 61, Star (Chars isWhiteSpace),
            Opt (Seq (Lit (ascii ''async'')) (Rep1 (Chars isWhiteSpace))), Ch 40]]"

definition classPatterns :: "rx list" where
  "classPatterns =
     [Seqs [WordB, Lit (ascii ''type''), Rep1 (Chars isWhiteSpace), Cap 1 rxWord,
            Rep1 (Chars isWhiteSpace), Alt (Lit (ascii ''struct'')) (Lit (ascii ''interface''))],
      Seqs [WordB, Lit (ascii ''class''), Rep1 (Chars isWhiteSpace), Cap 1 rxWord],
      Seqs [WordB, Lit (ascii ''interface''), Rep1 (Chars isWhiteSpace), Cap 1 rxWord]]"

definition namingMessage :: "nat \<Rightarrow> jsstring \<Rightarrow> jsstring \<Rightarrow> jsstring \<Rightarrow> jsstring" where
  "namingMessage lineNumber kind name expectedStyle =
     msgLine @ showNat lineNumber @ kind @ name @ msgNotFit @ expectedStyle @ msgNamingRule"

definition checkVariableNaming :: "jsstring \<Rightarrow> NamingRules \<Rightarrow> nat \<Rightarrow> jsstring list" where
  "checkVariableNaming line rules lineNumber =
     (let expectedStyle = nr_variable rules
      in concat (map (\<lambda>pat. concat (map (\<lambda>(t, cs).
           case orElse (group 1 cs) (group 2 cs) of
             Some (c # s) \<Rightarrow>
               if \<not> isValidNaming (c # s) expectedStyle
               then [namingMessage lineNumber msgVariable (c # s) expectedStyle] else []
           | _ \<Rightarrow> []) (rx_matches pat line))) variablePatterns))"

definition checkFunctionNaming :: "jsstring \<Rightarrow> NamingRules \<Rightarrow> jsstring \<Rightarrow> nat \<Rightarrow> jsstring list" where
  "checkFunctionNaming line rules lang lineNumber =
     (let expectedStyle = nr_function rules
      in concat (map (\<lambda>pat. concat (map (\<lambda>(t, cs).
           case group 1 cs of
             Some (c # s) \<Rightarrow>
               if \<not> isValidNaming (c # s) expectedStyle
               then [namingMessage lineNumber msgFunction (c # s) expectedStyle] else []
           | _ \<Rightarrow> []) (rx_matches pat line))) functionPatterns))"

definition checkClassNaming :: "jsstring \<Rightarrow> NamingRules \<Rightarrow> jsstring \<Rightarrow> nat \<Rightarrow> jsstring list" where
  "checkClassNaming line rules lang lineNumber =
     (let expectedStyle = nr_class rules
      in concat (map (\<lambda>pat. concat (map (\<lambda>(t, cs).
           case group 1 cs of
             Some (c # s) \<Rightarrow>
               if \<not> isValidNaming (c # s) expectedStyle
               then [namingMessage lineNumber msgClass (c # s) expectedStyle] else []
           | _ \<Rightarrow> []) (rx_matches pat line))) classPatterns))"

definition checkNamingViolations :: "jsstring \<Rightarrow> NamingStyle \<Rightarrow> jsstring \<Rightarrow> jsstring list" where
  "checkNamingViolations code namingStyle lang =
     (let lines = splitChar 10 code;
          namingRules = getNamingRulesForLanguage lang (ns_style namingStyle)
      in concat (map (\<lambda>(i, line).
           checkVariableNaming line namingRules (i + 1) @
           checkFunctionNaming line namingRules lang (i + 1) @
           checkClassNaming line namingRules lang (i + 1))
         (zip [0..<length lines] lines)))"

definition validateNaming :: "Memory list \<Rightarrow> jsstring \<Rightarrow> jsstring \<Rightarrow> ValidationIssue list" where
  "validateNaming memories code lang =
     (let namingMemories = filter (\<lambda>m.
            (category m = CODE_STYLE \<or> ascii ''naming'' \<in> set (tags m) \<or>
             includesStr (content m) kwNaming) \<and>
            (importance m = CRITICAL \<or> importance m = HIGH)) memories;
          namingMemories = (if length namingMemories = 0
                            then namingMemories @
                                 filter (\<lambda>m. category m = CODE_STYLE \<and> includesStr (content m) kwNaming)
                                   memories
                            else namingMemories)
      in if length namingMemories = 0
         then (case getDefaultNamingStyle lang of
                 Some (c # s) \<Rightarrow>
                   map (\<lambda>violation. \<lparr>v_type = SevWarning, v_message = violation, v_line = None,
                                      v_column = None, v_memoryId = None, v_memoryContent = None\<rparr>)
                       (checkNamingViolations code \<lparr>ns_style = c # s, ns_importance = MEDIUM\<rparr> lang)
               | _ \<Rightarrow> [])
         else concat (map (\<lambda>m.
                case extractNamingStyle (content m) of
                  None \<Rightarrow> []
                | Some namingStyle \<Rightarrow>
                    map (\<lambda>violation.
                          \<lparr>v_type = (if ns_importance namingStyle = CRITICAL then SevError else SevWarning),
                           v_message = violation, v_line = None, v_column = None,
                           v_memoryId = Some (mid m), v_memoryContent = Some (content m)\<rparr>)
                        (checkNamingViolations code namingStyle lang))
              namingMemories))"

subsection \<open>validateCodeStyle\<close>

definition rxFunctionWord :: rx where
  "rxFunctionWord =
     Alts [Seqs [WordB, Lit (ascii ''function''), WordB],
           Seqs [WordB, Lit (ascii ''def''), WordB],
           Seqs [WordB, Lit (ascii ''fn''), WordB]]"

text \<open>
  The loop of \<open>countFunctionLines\<close>: \<open>i\<close> is the index of the line, \<open>functionStart\<close> and
  \<open>braceCount\<close> are the variables of the source, \<open>n\<close> is the number of lines, returned
  when the loop ends.
\<close>

fun countLoop :: "jsstring list \<Rightarrow> nat \<Rightarrow> int \<Rightarrow> int \<Rightarrow> nat \<Rightarrow> nat" where
  "countLoop [] i functionStart braceCount n = n"
| "countLoop (line # rest) i functionStart braceCount n =
     (let functionStart1 = (if rx_test rxFunctionWord line then int i else functionStart);
          braceCount1 = (if rx_test rxFunctionWord line then 0 else braceCount)
      in if functionStart1 \<ge> 0
         then (let braceCount2 = braceCount1 + int (length (filter (\<lambda>c. c = 123) line))
                                             - int (length (filter (\<lambda>c. c = 125) line))
               in if braceCount2 = 0 \<and> int i > functionStart1
                  then nat (int i - functionStart1 + 1)
                  else countLoop rest (Suc i) functionStart1 braceCount2 n)
         else countLoop rest (Suc i) functionStart1 braceCount1 n)"

definition countFunctionLines :: "jsstring \<Rightarrow> nat" where
  "countFunctionLines code =
     countLoop (splitChar 10 code) 0 (- 1) 0 (length (splitChar 10 code))"

definition validateCodeStyle :: "Memory list \<Rightarrow> jsstring \<Rightarrow> jsstring \<Rightarrow> ValidationIssue list" where
  "validateCodeStyle memories code lang =
     concat (map (\<lambda>m.
       (if includesStr (content m) kwComment
        then (let hasComments = (includesStr code (ascii ''//'') \<or> includesStr code (ascii ''/*'') \<or>
                                 includesStr code (ascii ''#''))
              in if \<not> hasComments \<and> length code > 100
                 then [\<lparr>v_type = SevInfo, v_message = msgAddComment, v_line = None, v_column = None,
                        v_memoryId = Some (mid m), v_memoryContent = Some (content m)\<rparr>]
                 else [])
        else []) @
       (if includesStr (content m) kwFunctionLength \<or> includesStr (content m) kwCodeLength
        then (let functionLines = countFunctionLines code
              in if functionLines > 50
                 then [\<lparr>v_type = SevWarning,
                        v_message = msgLongA @ showNat functionLines @ msgLongB,
                        v_line = None, v_column = None,
                        v_memoryId = Some (mid m), v_memoryContent = Some (content m)\<rparr>]
                 else [])
        else []))
     (filter (\<lambda>m. category m = CODE_STYLE \<and> importance m = HIGH) memories))"

subsection \<open>validateBusinessRules\<close>

datatype ConstraintType = Forbidden | Required | Conditional

record BusinessConstraint =
  bc_type :: ConstraintType
  bc_patterns :: "jsstring list"
  bc_condition :: "jsstring option"
  bc_requirement :: "jsstring list option"

definition extractKeywords :: "jsstring \<Rightarrow> jsstring list" where
  "extractKeywords contentArg =
     jsSlice 0 5
       (filter (\<lambda>word. length word > 2 \<and>
                        word \<notin> set [[30340], [21644], [25110], [26159], [22312], [26377]])
          (rx_split (Rep1 (Chars (\<lambda>c. c = 65292 \<or> c = 12290 \<or> isWhiteSpace c))) contentArg))"

definition splitItems :: "jsstring \<Rightarrow> jsstring list" where
  "splitItems s = filter (\<lambda>x. x \<noteq> []) (map trim (rx_split (Chars isItemSeparator) s))"

definition rxIfThen :: rx where
  "rxIfThen =
     Seqs [Lit kwIf, Rep1 (Chars notStopComma), Lit kwThen, Chars isColon, Star (Chars isWhiteSpace),
           Cap 1 (Rep1 (Chars notStopCommaSemi))]"

definition rxIfCondition :: rx where
  "rxIfCondition = Seqs [Lit kwIf, Cap 1 (Rep1 (Chars (\<lambda>c. [c] \<noteq> kwThen))), Lit kwThen]"

definition rxThenRequirement :: rx where
  "rxThenRequirement =
     Seqs [Lit kwThen, Chars isColon, Star (Chars isWhiteSpace), Cap 1 (Rep1 (Chars anyChar))]"

definition rxWhenMust :: rx where
  "rxWhenMust =
     Seqs [Lit kwWhen, Rep1 (Chars notStopComma), Lit kwTime, Chars (\<lambda>c. c = 65292 \<or> c = 44),
           Lit kwMust, Chars isColon, Star (Chars isWhiteSpace),
           Cap 1 (Rep1 (Chars notStopCommaSemi))]"

definition rxWhenCondition :: rx where
  "rxWhenCondition = Seqs [Lit kwWhen, Cap 1 (Rep1 (Chars (\<lambda>c. [c] \<noteq> kwTime))), Lit kwTime]"

definition rxMustRequirement :: rx where
  "rxMustRequirement =
     Seqs [Lit kwMust, Chars isColon, Star (Chars isWhiteSpace), Cap 1 (Rep1 (Chars anyChar))]"

definition simpleConstraints :: "ConstraintType \<Rightarrow> jsstring \<Rightarrow> jsstring \<Rightarrow> BusinessConstraint list" where
  "simpleConstraints t keyword rule =
     concat (map (\<lambda>m.
        let items = splitItems (trim (rx_replace (rxKeywordPrefix keyword) [] m))
        in if length items > 0
           then [\<lparr>bc_type = t, bc_patterns = items, bc_condition = None, bc_requirement = None\<rparr>]
           else [])
      (rx_match_g (rxKeywordItem keyword notStopCommaSemi) rule))"

definition conditionalConstraints :: "rx \<Rightarrow> rx \<Rightarrow> rx \<Rightarrow> jsstring \<Rightarrow> BusinessConstraint list" where
  "conditionalConstraints whole cond req rule =
     concat (map (\<lambda>m.
        case (firstGroup (rx_match cond m), firstGroup (rx_match req m)) of
          (Some c, Some r) \<Rightarrow>
            let condition = trim c;
                requirement = splitItems r
            in if condition \<noteq> [] \<and> length requirement > 0
               then [\<lparr>bc_type = Conditional, bc_patterns = [], bc_condition = Some condition,
                      bc_requirement = Some requirement\<rparr>]
               else []
        | _ \<Rightarrow> [])
      (rx_match_g whole rule))"

definition extractBusinessConstraints :: "jsstring \<Rightarrow> BusinessConstraint list" where
  "extractBusinessConstraints rule =
     simpleConstraints Forbidden kwForbid rule @
     simpleConstraints Required kwMust rule @
     conditionalConstraints rxIfThen rxIfCondition rxThenRequirement rule @
     conditionalConstraints rxWhenMust rxWhenCondition rxMustRequirement rule"

definition checkBusinessRuleViolations :: "jsstring \<Rightarrow> jsstring \<Rightarrow> jsstring list" where
  "checkBusinessRuleViolations code rule =
     (let codeLower = toLowerCase code
      in concat (map (\<lambda>constraint.
           (if bc_type constraint = Forbidden
            then concat (map (\<lambda>p. if includesStr codeLower (toLowerCase p)
                                   then [msgBusForbid @ p @ [34]] else [])
                             (bc_patterns constraint))
            else []) @
           (if bc_type constraint = Required
            then (if \<not> list_ex (\<lambda>p. includesStr codeLower (toLowerCase p)) (bc_patterns constraint) \<and>
                     length (bc_patterns constraint) > 0
                  then [msgBusMust @ join msgOr (bc_patterns constraint) @ [34]] else [])
            else []) @
           (if bc_type constraint = Conditional
            then (case (bc_condition constraint, bc_requirement constraint) of
                    (Some (c # s), Some (r # rs)) \<Rightarrow>
                      if includesStr codeLower (toLowerCase (c # s)) \<and>
                         \<not> list_ex (\<lambda>req. includesStr codeLower (toLowerCase req)) (r # rs)
                      then [msgBusWhen @ (c # s) @ msgBusWhenB @ join msgOr (r # rs) @ [34]]
                      else []
                  | _ \<Rightarrow> [])
            else []))
         (extractBusinessConstraints rule)))"

definition validateBusinessRules :: "Memory list \<Rightarrow> jsstring \<Rightarrow> ValidationIssue list" where
  "validateBusinessRules memories code =
     concat (map (\<lambda>m.
       let kwds = extractKeywords (content m);
           codeLower = toLowerCase code;
           hasRelatedCode = list_ex (\<lambda>k. includesStr codeLower (toLowerCase k)) kwds
       in if hasRelatedCode
          then map (\<lambda>violation.
                 \<lparr>v_type = SevError, v_message = msgBusiness @ violation, v_line = None,
                  v_column = None, v_memoryId = Some (mid m), v_memoryContent = Some (content m)\<rparr>)
               (checkBusinessRuleViolations code (content m))
          else [])
     (filter (\<lambda>m. category m = BUSINESS_RULE \<and> importance m = CRITICAL) memories))"

subsection \<open>validateConstraints\<close>

definition validateConstraints :: "Memory list \<Rightarrow> jsstring \<Rightarrow> ValidationIssue list" where
  "validateConstraints memories code =
     concat (map (\<lambda>m.
       (if includesStr (content m) kwForbid \<or> includesStr (content m) kwNotAllowed
        then concat (map (\<lambda>item.
               if includesStr code item
               then [\<lparr>v_type = SevError, v_message = msgForbiddenUse @ item,
                      v_line = None, v_column = None,
                      v_memoryId = Some (mid m), v_memoryContent = Some (content m)\<rparr>]
               else []) (extractForbiddenItems (content m)))
        else []) @
       (if includesStr (content m) kwMust \<or> includesStr (content m) kwRequire
        then concat (map (\<lambda>item.
               if \<not> includesStr code item
               then [\<lparr>v_type = SevWarning, v_message = msgSuggestUse @ item,
                      v_line = None, v_column = None,
                      v_memoryId = Some (mid m), v_memoryContent = Some (content m)\<rparr>]
               else []) (extractRequiredItems (content m)))
        else []))
     (filter (\<lambda>m. category m = CONSTRAINT \<and> importance m = CRITICAL) memories))"

subsection \<open>validateCode\<close>

text \<open>
  The validator holds the list of records it was built with and, when a storage was
  given, an architecture checker over that storage. \<open>validateCode\<close> returns the result
  and the validator with the new state of its checker.
\<close>

record CodeValidator =
  cv_memories :: "Memory list"
  architectureChecker :: "ArchitectureChecker option"

definition newCodeValidator :: "Memory list \<Rightarrow> Memory list option \<Rightarrow> CodeValidator" where
  "newCodeValidator memories storage =
     \<lparr>cv_memories = memories, architectureChecker = map_option newArchitectureChecker storage\<rparr>"

definition toValidationIssue :: "ArchitectureIssue \<Rightarrow> ValidationIssue" where
  "toValidationIssue archIssue =
     \<lparr>v_type = a_type archIssue, v_message = a_message archIssue, v_line = a_line archIssue,
      v_column = a_column archIssue, v_memoryId = a_memoryId archIssue,
      v_memoryContent = a_memoryContent archIssue\<rparr>"

definition validationSummary :: "ValidationIssue list \<Rightarrow> jsstring" where
  "validationSummary is =
     (let errorCount = countType SevError (map v_type is);
          warningCount = countType SevWarning (map v_type is);
          infoCount = countType SevInfo (map v_type is)
      in if errorCount = 0 \<and> length is = 0 then msgOk
         else if errorCount = 0
         then msgPass @ showNat warningCount @ msgInfoCount @ showNat infoCount
         else msgFail @ showNat errorCount @ msgWarningCount @ showNat warningCount @
              msgInfoCount @ showNat infoCount)"

definition validateCode ::
  "Env \<Rightarrow> Memory list \<Rightarrow> int \<Rightarrow> jsstring \<Rightarrow> jsstring \<Rightarrow> jsstring \<Rightarrow> CodeValidator \<Rightarrow>
   ValidationResult \<times> CodeValidator" where
  "validateCode env stored now code filePathArg lang cv =
     (let architectureIssues = validateArchitecture (cv_memories cv) code filePathArg;
          (archValidationIssues, checker) =
             (case architectureChecker cv of
                None \<Rightarrow> ([], None)
              | Some ac \<Rightarrow>
                  let (archResult, ac') = checkArchitecture env stored now code filePathArg lang ac
                  in (map toValidationIssue (a_issues archResult), Some ac'));
          namingIssues = validateNaming (cv_memories cv) code lang;
          styleIssues = validateCodeStyle (cv_memories cv) code lang;
          businessIssues = validateBusinessRules (cv_memories cv) code;
          constraintIssues = validateConstraints (cv_memories cv) code;
          is = architectureIssues @ archValidationIssues @ namingIssues @ styleIssues @
               businessIssues @ constraintIssues
      in (\<lparr>passed = (countType SevError (map v_type is) = 0), issues = is,
           summary = validationSummary is\<rparr>,
          cv\<lparr>architectureChecker := checker\<rparr>))"

section \<open>Names used in the statements about the validator\<close>

text \<open>The issues that the four checks of the architecture checker give on one cache.\<close>

definition archIssuesOn ::
  "Env \<Rightarrow> Memory list \<Rightarrow> jsstring \<Rightarrow> jsstring \<Rightarrow> jsstring \<Rightarrow> ArchitectureIssue list" where
  "archIssuesOn env cache code filePathArg lang =
     checkArchitectureConstraints cache code filePathArg @
     checkModuleDivision env cache code filePathArg lang @
     checkDependencies env cache code filePathArg lang @
     checkArchitectureNaming cache code filePathArg lang"

text \<open>The cache holds what the storage has now, and no load is under way.\<close>

definition cacheLoaded :: "Memory list \<Rightarrow> ArchitectureChecker \<Rightarrow> bool" where
  "cacheLoaded stored ac = (architectureMemoriesOf ac = loadFilter stored \<and> pendingLoads ac = [])"

text \<open>The diagnostic of \<open>validateConstraints\<close> for a forbidden item of a record.\<close>

definition forbiddenIssue :: "Memory \<Rightarrow> jsstring \<Rightarrow> ValidationIssue" where
  "forbiddenIssue m item =
     \<lparr>v_type = SevError, v_message = msgForbiddenUse @ item, v_line = None, v_column = None,
      v_memoryId = Some (mid m), v_memoryContent = Some (content m)\<rparr>"

text \<open>The diagnostic of \<open>checkArchitectureConstraints\<close> for a forbidden pattern of a record.\<close>

definition forbiddenArchIssue :: "Memory \<Rightarrow> jsstring \<Rightarrow> ArchitectureIssue" where
  "forbiddenArchIssue m p =
     \<lparr>a_type = SevError, a_message = msgArchViolation @ content m, a_file = None, a_line = None,
      a_column = None, a_memoryId = Some (mid m), a_memoryContent = Some (content m),
      a_suggestion = Some (msgRemoveA @ p @ msgRemoveB)\<rparr>"

definition mentionsForbidden :: "jsstring \<Rightarrow> bool" where
  "mentionsForbidden contentLower =
     (includesStr contentLower kwForbid \<or> includesStr contentLower kwNotAllowed \<or>
      includesStr contentLower (ascii ''forbidden'') \<or> includesStr contentLower (ascii ''not allowed''))"

text \<open>
  The result of \<open>validateCode\<close> as a function of the records of the validator and of
  the cache its checker works on (\<open>None\<close> without a checker).
\<close>

definition validationIssuesOn ::
  "Env \<Rightarrow> Memory list \<Rightarrow> Memory list option \<Rightarrow> jsstring \<Rightarrow> jsstring \<Rightarrow> jsstring \<Rightarrow>
   ValidationIssue list" where
  "validationIssuesOn env memories cache code filePathArg lang =
     validateArchitecture memories code filePathArg @
     (case cache of None \<Rightarrow> []
      | Some c \<Rightarrow> map toValidationIssue (archIssuesOn env c code filePathArg lang)) @
     validateNaming memories code lang @ validateCodeStyle memories code lang @
     validateBusinessRules memories code @ validateConstraints memories code"

definition resultOf :: "ValidationIssue list \<Rightarrow> ValidationResult" where
  "resultOf is =
     \<lparr>passed = (countType SevError (map v_type is) = 0), issues = is,
      summary = validationSummary is\<rparr>"

section \<open>Example data for the validator\<close>

text \<open>
  A record forbidding \<open>eval(\<close>, in the categories and importances used below, and a
  record of high importance forbidding the dependency \<open>lodash\<close>; an environment without
  a workspace folder.
\<close>

definition exForbid :: "MemoryCategory \<Rightarrow> ImportanceLevel \<Rightarrow> Memory" where
  "exForbid cat imp =
     \<lparr>mid = ascii ''m1'', content = kwForbid @ ascii '': eval('', category = cat, timestamp = 0,
      tags = [], importance = imp, relatedFiles = None, confidence = None\<rparr>"

definition exForbidDep :: Memory where
  "exForbidDep =
     \<lparr>mid = ascii ''m2'', content = kwDependency @ ascii '' '' @ kwForbid @ ascii '':lodash'',
      category = ARCHITECTURE, timestamp = 0, tags = [], importance = HIGH, relatedFiles = None,
      confidence = None\<rparr>"

definition exEvalCode :: jsstring where
  "exEvalCode = ascii ''eval(x)''"

definition exImportCode :: jsstring where
  "exImportCode = ascii ''import _ from '' @ [34] @ ascii ''lodash'' @ [34]"

definition exEnv :: Env where
  "exEnv = \<lparr>workspaceFolder = None, pathRelative = (\<lambda>a b. b), pathBasename = (\<lambda>p. p)\<rparr>"

section \<open>Evaluation rules\<close>

lemma rx_scan_Nil:
  "rx_scan r l [] = (case rx_at r l [] of None \<Rightarrow> [] | Some (m, cs) \<Rightarrow> [Inr (m, cs)])"
  by (subst rx_scan.simps) (simp split: option.splits)

lemma rx_scan_Cons:
  "rx_scan r l (c # s) =
     (case rx_at r l (c # s) of
        None \<Rightarrow> Inl c # rx_scan r (c # l) s
      | Some (m, cs) \<Rightarrow>
          if m = [] then Inr (m, cs) # Inl c # rx_scan r (c # l) s
          else Inr (m, cs) # rx_scan r (rev m @ l) (drop (length m) (c # s)))"
  by (subst rx_scan.simps) (auto split: option.splits)

lemmas str_ev = ascii_def isWhiteSpace_def isLetter_def isUpper_def isLower_def isDigit_def
  isWordChar_def isLineTerminator_def lowerUnit_def toLowerCase_def trim_def substring_def
  substringFrom_def

lemmas rx_ev = rx_scan_Nil rx_scan_Cons rx_at_def rx_matches_def rx_match_g_def rx_match_def
  rx_test_def rx_replace_g_def rx_replace_def rx_split_def Rep1_def Rep1Lazy_def Opt_def Ch_def
  group_def atWordBoundary_def

lemmas ex_ev = exMemory_def exExtract_def exA_def exB_def exCritical_def exHighTagged_def
  exHighPlain_def

section \<open>Arrays and sorting\<close>

lemma jsSlice_0: "jsSlice 0 n xs = take (nat (if n < 0 then max (int (length xs) + n) 0 else n)) xs"
  by (auto simp: jsSlice_def Let_def min_def max_def)

lemma length_jsSlice_0: "0 \<le> n \<Longrightarrow> length (jsSlice 0 n xs) \<le> nat n"
  by (simp add: jsSlice_0)

lemma set_jsSlice_0: "set (jsSlice 0 n xs) \<subseteq> set xs"
  by (simp add: jsSlice_0 set_take_subset)

lemma length_jsSlice_cap: "c \<le> 20 \<Longrightarrow> length (jsSlice 0 (20 - int c) xs) \<le> 20 - c"
  by (simp add: jsSlice_0)

lemma in_set_jsSlice_0: "m \<in> set (jsSlice 0 n xs) \<Longrightarrow> m \<in> set xs"
  by (auto simp: jsSlice_0 dest: in_set_takeD)

lemma jsSlice_filter_D: "m \<in> set (jsSlice 0 n (filter Q xs)) \<Longrightarrow> Q m"
  by (auto dest: in_set_jsSlice_0)

lemma jsSlice_0_nonempty: "xs \<noteq> [] \<Longrightarrow> 0 < n \<Longrightarrow> jsSlice 0 n xs \<noteq> []"
  by (cases xs) (auto simp: jsSlice_0)

lemma insort_key_map:
  "insort_key f (g x) (map g xs) = map g (insort_key (\<lambda>y. f (g y)) x xs)"
  by (induction xs) auto

lemma sort_key_map: "sort_key f (map g xs) = map g (sort_key (\<lambda>y. f (g y)) xs)"
  by (induction xs) (auto simp: insort_key_map)

lemma sorted_desc_sort_key:
  "sorted_wrt (\<lambda>a b. f b \<le> (f a :: rat)) (sort_key (\<lambda>m. - f m) xs)"
proof -
  have "sorted (map (\<lambda>m. - f m) (sort_key (\<lambda>m. - f m) xs))" by (rule sorted_sort_key)
  then show ?thesis by (simp add: sorted_map)
qed

lemma sorted_wrt_filter_take:
  "sorted_wrt R xs \<Longrightarrow> sorted_wrt R (take n (filter P xs))"
  by (meson sorted_wrt_filter sorted_wrt_take)

lemma stable_desc:
  "filter (\<lambda>m. P m \<and> f m = (k::rat)) (sort_key (\<lambda>m. - f m) xs) = filter (\<lambda>m. P m \<and> f m = k) xs"
proof -
  have "filter (\<lambda>m. - f m = - k) (sort_key (\<lambda>m. - f m) xs) = filter (\<lambda>m. - f m = - k) xs"
    by (rule sort_key_stable)
  then have "filter P (filter (\<lambda>m. f m = k) (sort_key (\<lambda>m. - f m) xs)) = filter P (filter (\<lambda>m. f m = k) xs)"
    by simp
  then show ?thesis by (simp add: conj_commute)
qed

lemma filter_take_prefix: "prefix (filter P (take n xs)) (filter P xs)"
proof -
  have "filter P xs = filter P (take n xs) @ filter P (drop n xs)"
    by (metis append_take_drop_id filter_append)
  then show ?thesis by (metis prefixI)
qed

lemma filter_app_left:
  assumes "\<And>m. m \<in> set C \<Longrightarrow> P m" and "\<And>m. m \<in> set T \<Longrightarrow> \<not> P m"
  shows "filter P (C @ T) = C"
proof -
  have "filter P C = C" using assms(1) by (induction C) auto
  moreover have "filter P T = []" using assms(2) by (induction T) auto
  ultimately show ?thesis by simp
qed

lemma filter_app_right:
  assumes "\<And>m. m \<in> set C \<Longrightarrow> P m" and "\<And>m. m \<in> set T \<Longrightarrow> \<not> P m"
  shows "filter (\<lambda>m. \<not> P m) (C @ T) = T"
proof -
  have "filter (\<lambda>m. \<not> P m) C = []" using assms(1) by (induction C) auto
  moreover have "filter (\<lambda>m. \<not> P m) T = T" using assms(2) by (induction T) auto
  ultimately show ?thesis by simp
qed

section \<open>The selector\<close>

lemma getRelevant_path:
  assumes "fp \<noteq> []"
  shows "getRelevantMemoriesForFile ext ms (Some fp) =
     filter (\<lambda>m. importance m = CRITICAL) (sort_key (\<lambda>m. - scoreOf ext fp m) ms) @
     jsSlice 0 (20 - int (length (filter (\<lambda>m. importance m = CRITICAL) ms)))
       (filter (\<lambda>m. importance m \<noteq> CRITICAL \<and> scoreOf ext fp m > 10)
          (sort_key (\<lambda>m. - scoreOf ext fp m) ms))"
proof -
  let ?g = "\<lambda>m. \<lparr>mr_memory = m, mr_score = calculateRelevance m (ext fp)\<rparr>"
  have s: "sort_key (\<lambda>mr. - mr_score mr) (map ?g ms) = map ?g (sort_key (\<lambda>m. - scoreOf ext fp m) ms)"
    by (simp add: sort_key_map scoreOf_def)
  have len: "length (filter (\<lambda>m. importance m = CRITICAL) (sort_key (\<lambda>m. - scoreOf ext fp m) ms))
      = length (filter (\<lambda>m. importance m = CRITICAL) ms)"
    by (simp add: filter_sort)
  have f1: "map mr_memory (filter (\<lambda>mr. importance (mr_memory mr) = CRITICAL) (map ?g xs))
      = filter (\<lambda>m. importance m = CRITICAL) xs" for xs
    by (induction xs) auto
  have f2: "map mr_memory (take n (filter (\<lambda>mr. importance (mr_memory mr) \<noteq> CRITICAL \<and> mr_score mr > 10) (map ?g xs)))
      = take n (filter (\<lambda>m. importance m \<noteq> CRITICAL \<and> scoreOf ext fp m > 10) xs)" for xs n
    by (induction xs arbitrary: n) (auto simp: scoreOf_def take_Cons split: nat.splits)
  have f3: "length (filter (\<lambda>mr. importance (mr_memory mr) \<noteq> CRITICAL \<and> mr_score mr > 10) (map ?g xs))
      = length (filter (\<lambda>m. importance m \<noteq> CRITICAL \<and> scoreOf ext fp m > 10) xs)" for xs
    by (induction xs) (auto simp: scoreOf_def)
  have f1l: "length (filter (\<lambda>mr. importance (mr_memory mr) = CRITICAL) (map ?g xs))
      = length (filter (\<lambda>m. importance m = CRITICAL) xs)" for xs
    by (induction xs) auto
  show ?thesis using assms
    by (simp only: getRelevantMemoriesForFile_def Let_def option.sel s jsSlice_0 f1 f2 f3 f1l len map_append length_map)
       simp
qed

lemma getRelevant_nopath:
  "filePathArg = None \<or> filePathArg = Some [] \<Longrightarrow>
   getRelevantMemoriesForFile ext ms filePathArg =
     filter (\<lambda>m. importance m = CRITICAL \<or> importance m = HIGH) ms"
  by (auto simp: getRelevantMemoriesForFile_def)

lemma getRelevant_split:
  "fp \<noteq> [] \<Longrightarrow> getRelevantMemoriesForFile ext ms (Some fp) = selCritical ext fp ms @ selTail ext fp ms"
  unfolding selCritical_def selTail_def selOthers_def by (rule getRelevant_path)

lemma selCritical_D: "m \<in> set (selCritical ext fp ms) \<Longrightarrow> importance m = CRITICAL"
  by (simp add: selCritical_def)

lemma selTail_D:
  "m \<in> set (selTail ext fp ms) \<Longrightarrow> importance m \<noteq> CRITICAL \<and> scoreOf ext fp m > 10"
  unfolding selTail_def selOthers_def by (rule jsSlice_filter_D)

lemma selTail_notcrit: "m \<in> set (selTail ext fp ms) \<Longrightarrow> \<not> importance m = CRITICAL"
  using selTail_D by blast

lemma filter_crit_sel:
  "filter (\<lambda>m. importance m = CRITICAL) (selCritical ext fp ms @ selTail ext fp ms) = selCritical ext fp ms"
  by (rule filter_app_left[OF selCritical_D selTail_notcrit])

lemma filter_other_sel:
  "filter (\<lambda>m. importance m \<noteq> CRITICAL) (selCritical ext fp ms @ selTail ext fp ms) = selTail ext fp ms"
  by (rule filter_app_right[OF selCritical_D selTail_notcrit])

lemma length_selCritical:
  "length (selCritical ext fp ms) = length (filter (\<lambda>m. importance m = CRITICAL) ms)"
  by (simp add: selCritical_def filter_sort)

lemma length_selTail:
  "length (filter (\<lambda>m. importance m = CRITICAL) ms) \<le> 20 \<Longrightarrow>
   length (selTail ext fp ms) \<le> 20 - length (filter (\<lambda>m. importance m = CRITICAL) ms)"
  unfolding selTail_def by (rule length_jsSlice_cap)

lemma sorted_selCritical:
  "sorted_wrt (\<lambda>a b. scoreOf ext fp b \<le> scoreOf ext fp a) (selCritical ext fp ms)"
  unfolding selCritical_def by (intro sorted_wrt_filter sorted_desc_sort_key)

lemma sorted_selTail:
  "sorted_wrt (\<lambda>a b. scoreOf ext fp b \<le> scoreOf ext fp a) (selTail ext fp ms)"
  unfolding selTail_def selOthers_def jsSlice_0 by (intro sorted_wrt_filter_take sorted_desc_sort_key)

lemma ties_selCritical:
  "filter (\<lambda>m. importance m = CRITICAL \<and> scoreOf ext fp m = k) (selCritical ext fp ms @ selTail ext fp ms) =
   filter (\<lambda>m. importance m = CRITICAL \<and> scoreOf ext fp m = k) ms"
proof -
  have "filter (\<lambda>m. importance m = CRITICAL \<and> scoreOf ext fp m = k) (selCritical ext fp ms @ selTail ext fp ms)
      = filter (\<lambda>m. scoreOf ext fp m = k)
          (filter (\<lambda>m. importance m = CRITICAL) (selCritical ext fp ms @ selTail ext fp ms))"
    by (simp only: filter_filter)
  also have "\<dots> = filter (\<lambda>m. scoreOf ext fp m = k) (selCritical ext fp ms)"
    by (simp only: filter_crit_sel)
  also have "\<dots> = filter (\<lambda>m. importance m = CRITICAL \<and> scoreOf ext fp m = k)
                      (sort_key (\<lambda>m. - scoreOf ext fp m) ms)"
    by (simp only: selCritical_def filter_filter)
  also have "\<dots> = filter (\<lambda>m. importance m = CRITICAL \<and> scoreOf ext fp m = k) ms"
    by (rule stable_desc)
  finally show ?thesis .
qed

lemma ties_selTail:
  "prefix (filter (\<lambda>m. importance m \<noteq> CRITICAL \<and> scoreOf ext fp m = k)
             (selCritical ext fp ms @ selTail ext fp ms))
          (filter (\<lambda>m. importance m \<noteq> CRITICAL \<and> scoreOf ext fp m = k) ms)"
proof -
  let ?Q = "\<lambda>m. importance m \<noteq> CRITICAL \<and> scoreOf ext fp m > 10"
  have a: "filter (\<lambda>m. importance m \<noteq> CRITICAL \<and> scoreOf ext fp m = k)
             (selCritical ext fp ms @ selTail ext fp ms)
      = filter (\<lambda>m. scoreOf ext fp m = k)
          (filter (\<lambda>m. importance m \<noteq> CRITICAL) (selCritical ext fp ms @ selTail ext fp ms))"
    by (simp only: filter_filter)
  have b: "\<dots> = filter (\<lambda>m. scoreOf ext fp m = k) (selTail ext fp ms)"
    by (simp only: filter_other_sel)
  have c: "prefix (filter (\<lambda>m. scoreOf ext fp m = k) (selTail ext fp ms))
                  (filter (\<lambda>m. scoreOf ext fp m = k) (selOthers ext fp ms))"
    unfolding selTail_def jsSlice_0 by (rule filter_take_prefix)
  have d: "filter (\<lambda>m. scoreOf ext fp m = k) (selOthers ext fp ms)
      = filter (\<lambda>m. ?Q m \<and> scoreOf ext fp m = k) (sort_key (\<lambda>m. - scoreOf ext fp m) ms)"
    by (simp only: selOthers_def filter_filter)
  have e: "\<dots> = filter (\<lambda>m. ?Q m \<and> scoreOf ext fp m = k) ms"
    by (rule stable_desc)
  have f: "prefix (filter (\<lambda>m. ?Q m \<and> scoreOf ext fp m = k) ms)
                  (filter (\<lambda>m. importance m \<noteq> CRITICAL \<and> scoreOf ext fp m = k) ms)"
  proof (cases "k > 10")
    case True
    have "filter (\<lambda>m. ?Q m \<and> scoreOf ext fp m = k) ms =
          filter (\<lambda>m. importance m \<noteq> CRITICAL \<and> scoreOf ext fp m = k) ms"
      by (rule filter_cong) (use True in auto)
    then show ?thesis by simp
  next
    case False
    have "filter (\<lambda>m. ?Q m \<and> scoreOf ext fp m = k) ms = filter (\<lambda>m. False) ms"
      by (rule filter_cong) (use False in auto)
    then show ?thesis by simp
  qed
  from c have c': "prefix (filter (\<lambda>m. scoreOf ext fp m = k) (selTail ext fp ms))
                  (filter (\<lambda>m. ?Q m \<and> scoreOf ext fp m = k) ms)"
    by (simp only: d e)
  from prefix_order.order_trans[OF c' f] show ?thesis by (simp only: a b)
qed

lemma scoreA: "calculateRelevance exA (exExtract (ascii ''x.ts'')) = 100"
  by (simp add: calculateRelevance_def ex_ev str_ev rx_ev Let_def cong: let_weak_cong)

lemma scoreB: "calculateRelevance exB (exExtract (ascii ''x.ts'')) = 112"
  by (simp add: calculateRelevance_def ex_ev str_ev rx_ev Let_def cong: let_weak_cong)

lemma scoreHT: "calculateRelevance (exHighTagged i) (exExtract (ascii ''x.ts'')) = 18"
  by (simp add: calculateRelevance_def ex_ev str_ev rx_ev Let_def cong: let_weak_cong)

lemma scoreHP: "calculateRelevance (exHighPlain i) (exExtract (ascii ''x.ts'')) = 0"
  by (simp add: calculateRelevance_def ex_ev str_ev rx_ev Let_def cong: let_weak_cong)

lemma scoreC: "calculateRelevance (exCritical i) (exExtract (ascii ''x.ts'')) = 100"
  by (simp add: calculateRelevance_def ex_ev str_ev rx_ev Let_def cong: let_weak_cong)

lemma imp_exAB [simp]: "importance exA = CRITICAL" "importance exB = CRITICAL"
  by (simp_all add: ex_ev)

lemma imp_ex [simp]: "importance (exHighPlain i) = HIGH" "importance (exHighTagged i) = HIGH"
  "importance (exCritical i) = CRITICAL"
  by (simp_all add: ex_ev)

lemma path_ne: "ascii ''x.ts'' \<noteq> []"
  by (simp add: ascii_def)

lemma select25:
  "getRelevantMemoriesForFile exExtract exCorpus25 (Some (ascii ''x.ts'')) =
   map exHighTagged [20, 21, 22, 23, 24]"
  by (simp add: getRelevantMemoriesForFile_def exCorpus25_def scoreHT scoreHP jsSlice_def Let_def
        path_ne cong: let_weak_cong)

text \<open>
  Claim C2. For every corpus, every feature extractor and every path argument (a
  missing path included), a record of the corpus whose importance is critical is in the
  list that \<open>getRelevantMemoriesForFile\<close> returns, whatever its score.
\<close>

theorem critical_always_selected:
  assumes "m \<in> set memories" and "importance m = CRITICAL"
  shows "m \<in> set (getRelevantMemoriesForFile extractCodeFeatures memories filePathArg)"
proof (cases "filePathArg = None \<or> filePathArg = Some []")
  case True
  then show ?thesis using assms by (auto simp: getRelevantMemoriesForFile_def)
next
  case False
  then obtain fp where "filePathArg = Some fp" "fp \<noteq> []" by (cases filePathArg) auto
  then show ?thesis using assms by (simp add: getRelevant_path)
qed

text \<open>The theorem at a corpus of two critical records.\<close>

theorem critical_always_selected_witness:
  "exB \<in> set [exA, exB] \<and> importance exB = CRITICAL \<and>
   exB \<in> set (getRelevantMemoriesForFile exExtract [exA, exB] (Some (ascii ''x.ts'')))"
  using critical_always_selected[of exB "[exA, exB]" exExtract "Some (ascii ''x.ts'')"]
  by simp

text \<open>
  Claim C3, amended. For a non-empty path: when the corpus has at most 20 critical records
  the selection has at most 20 records, and the records that are not critical fill only
  what the critical ones leave of the 20; a record that is not critical is selected only
  with a score above 10; these records come after the critical ones, by descending
  score. (With more than 20 critical records the selection is longer than 20.)
\<close>

theorem selector_cap:
  assumes fp: "fp \<noteq> []"
  shows "(length (filter (\<lambda>m. importance m = CRITICAL) memories) \<le> 20 \<longrightarrow>
            length (getRelevantMemoriesForFile extractCodeFeatures memories (Some fp)) \<le> 20 \<and>
            length (filter (\<lambda>m. importance m \<noteq> CRITICAL)
                      (getRelevantMemoriesForFile extractCodeFeatures memories (Some fp))) \<le>
              20 - length (filter (\<lambda>m. importance m = CRITICAL) memories)) \<and>
         (\<forall>m \<in> set (getRelevantMemoriesForFile extractCodeFeatures memories (Some fp)).
            importance m \<noteq> CRITICAL \<longrightarrow> calculateRelevance m (extractCodeFeatures fp) > 10) \<and>
         sorted_wrt (\<lambda>a b. calculateRelevance b (extractCodeFeatures fp) \<le>
                           calculateRelevance a (extractCodeFeatures fp))
           (filter (\<lambda>m. importance m \<noteq> CRITICAL)
              (getRelevantMemoriesForFile extractCodeFeatures memories (Some fp))) \<and>
         getRelevantMemoriesForFile extractCodeFeatures memories (Some fp) =
           filter (\<lambda>m. importance m = CRITICAL)
             (getRelevantMemoriesForFile extractCodeFeatures memories (Some fp)) @
           filter (\<lambda>m. importance m \<noteq> CRITICAL)
             (getRelevantMemoriesForFile extractCodeFeatures memories (Some fp))"
proof -
  let ?C = "selCritical extractCodeFeatures fp memories"
  let ?T = "selTail extractCodeFeatures fp memories"
  have capl: "length (filter (\<lambda>m. importance m = CRITICAL) memories) \<le> 20 \<longrightarrow>
            length (?C @ ?T) \<le> 20 \<and>
            length ?T \<le> 20 - length (filter (\<lambda>m. importance m = CRITICAL) memories)"
    using length_selTail[of memories extractCodeFeatures fp]
          length_selCritical[of extractCodeFeatures fp memories]
    by (simp only: length_append) linarith
  have thr: "\<forall>m \<in> set (?C @ ?T). importance m \<noteq> CRITICAL \<longrightarrow> scoreOf extractCodeFeatures fp m > 10"
  proof (intro ballI impI)
    fix m assume "m \<in> set (?C @ ?T)" and nc: "importance m \<noteq> CRITICAL"
    then have "m \<in> set ?C \<or> m \<in> set ?T" by simp
    then show "scoreOf extractCodeFeatures fp m > 10"
      using nc selCritical_D selTail_D by blast
  qed
  have srt: "sorted_wrt (\<lambda>a b. scoreOf extractCodeFeatures fp b \<le> scoreOf extractCodeFeatures fp a) ?T"
    by (rule sorted_selTail)
  show ?thesis
    unfolding getRelevant_split[OF fp] filter_crit_sel filter_other_sel
    using capl thr srt unfolding scoreOf_def
    by (intro conjI) (assumption | rule refl)+
qed

text \<open>
  The claim as stated bounds every selection by 20. A corpus of 21 critical records is
  selected whole.
\<close>

theorem selector_cap_counterexample:
  "length exCorpus21 = 21 \<and>
   length (getRelevantMemoriesForFile exExtract exCorpus21 (Some (ascii ''x.ts''))) = 21"
  by (simp add: getRelevantMemoriesForFile_def exCorpus21_def scoreC jsSlice_def Let_def
        path_ne cong: let_weak_cong)

text \<open>
  The theorem at the corpus of the specification's example: 25 records of high
  importance, five of them tagged \<open>auth\<close>; the selection is exactly these five.
\<close>

theorem selector_cap_witness:
  "ascii ''x.ts'' \<noteq> [] \<and>
   length (filter (\<lambda>m. importance m = CRITICAL) exCorpus25) \<le> 20 \<and>
   length (getRelevantMemoriesForFile exExtract exCorpus25 (Some (ascii ''x.ts''))) \<le> 20 \<and>
   getRelevantMemoriesForFile exExtract exCorpus25 (Some (ascii ''x.ts'')) =
     map exHighTagged [20, 21, 22, 23, 24]"
  using selector_cap[OF path_ne, of exCorpus25 exExtract] select25
  by (simp add: path_ne exCorpus25_def)

text \<open>
  Claim C4, amended. For a non-empty path the critical records come first, then the
  others; each group is ordered by descending score; critical records of equal score
  keep their order in the corpus, and the selected non-critical records of one score
  are the first of that score in the corpus, in corpus order. Without a path the
  selection is the critical and high records in corpus order.
\<close>

theorem selector_order:
  assumes fp: "fp \<noteq> []"
  shows "getRelevantMemoriesForFile extractCodeFeatures memories (Some fp) =
           filter (\<lambda>m. importance m = CRITICAL)
             (getRelevantMemoriesForFile extractCodeFeatures memories (Some fp)) @
           filter (\<lambda>m. importance m \<noteq> CRITICAL)
             (getRelevantMemoriesForFile extractCodeFeatures memories (Some fp)) \<and>
         sorted_wrt (\<lambda>a b. calculateRelevance b (extractCodeFeatures fp) \<le>
                           calculateRelevance a (extractCodeFeatures fp))
           (filter (\<lambda>m. importance m = CRITICAL)
              (getRelevantMemoriesForFile extractCodeFeatures memories (Some fp))) \<and>
         sorted_wrt (\<lambda>a b. calculateRelevance b (extractCodeFeatures fp) \<le>
                           calculateRelevance a (extractCodeFeatures fp))
           (filter (\<lambda>m. importance m \<noteq> CRITICAL)
              (getRelevantMemoriesForFile extractCodeFeatures memories (Some fp))) \<and>
         filter (\<lambda>m. importance m = CRITICAL \<and> calculateRelevance m (extractCodeFeatures fp) = k)
             (getRelevantMemoriesForFile extractCodeFeatures memories (Some fp)) =
           filter (\<lambda>m. importance m = CRITICAL \<and> calculateRelevance m (extractCodeFeatures fp) = k)
             memories \<and>
         prefix
           (filter (\<lambda>m. importance m \<noteq> CRITICAL \<and> calculateRelevance m (extractCodeFeatures fp) = k)
              (getRelevantMemoriesForFile extractCodeFeatures memories (Some fp)))
           (filter (\<lambda>m. importance m \<noteq> CRITICAL \<and> calculateRelevance m (extractCodeFeatures fp) = k)
              memories) \<and>
         getRelevantMemoriesForFile extractCodeFeatures memories None =
           filter (\<lambda>m. importance m = CRITICAL \<or> importance m = HIGH) memories"
proof -
  note t1 = ties_selCritical[of extractCodeFeatures fp k memories]
  note t2 = ties_selTail[of extractCodeFeatures fp k memories]
  note s1 = sorted_selCritical[of extractCodeFeatures fp memories]
  note s2 = sorted_selTail[of extractCodeFeatures fp memories]
  have np: "getRelevantMemoriesForFile extractCodeFeatures memories None =
           filter (\<lambda>m. importance m = CRITICAL \<or> importance m = HIGH) memories"
    by (simp add: getRelevant_nopath)
  show ?thesis
    unfolding getRelevant_split[OF fp] filter_crit_sel filter_other_sel
    using t1 t2 s1 s2 np unfolding scoreOf_def
    by (intro conjI) (assumption | rule refl)+
qed

text \<open>
  The claim as stated has the critical records in corpus order. Two critical records,
  the second with a matching tag, come out in the opposite order.
\<close>

theorem selector_order_counterexample:
  "getRelevantMemoriesForFile exExtract [exA, exB] (Some (ascii ''x.ts'')) = [exB, exA] \<and>
   map importance [exA, exB] = [CRITICAL, CRITICAL] \<and> exA \<noteq> exB"
  by (simp add: getRelevantMemoriesForFile_def scoreA scoreB jsSlice_def Let_def path_ne
        cong: let_weak_cong)
     (simp add: ex_ev ascii_def)

text \<open>The theorem at a corpus in which a critical record occurs twice with score 100.\<close>

theorem selector_order_witness:
  "ascii ''x.ts'' \<noteq> [] \<and>
   filter (\<lambda>m. importance m = CRITICAL \<and> calculateRelevance m (exExtract (ascii ''x.ts'')) = 100)
     (getRelevantMemoriesForFile exExtract [exA, exB, exA] (Some (ascii ''x.ts''))) = [exA, exA]"
  using selector_order[OF path_ne, of exExtract "[exA, exB, exA]" 100]
  by (simp add: path_ne scoreA scoreB)

section \<open>The context bundle\<close>

lemma length_criticalEntries: "length (criticalEntries c) \<le> 10"
  by (simp add: criticalEntries_def jsSlice_0)

lemma length_entries: "length (criticalEntries c) + length (highEntries c) + length (mediumEntries c) \<le> 10"
  by (auto simp: criticalEntries_def highEntries_def mediumEntries_def jsSlice_0 Let_def)

lemma entries_importance:
  "m \<in> set (criticalEntries c) \<Longrightarrow> importance m = CRITICAL \<and> m \<in> set c"
  "m \<in> set (highEntries c) \<Longrightarrow> importance m = HIGH \<and> m \<in> set c"
  "m \<in> set (mediumEntries c) \<Longrightarrow> importance m = MEDIUM \<and> m \<in> set c"
  by (auto simp: criticalEntries_def highEntries_def mediumEntries_def Let_def
           dest!: in_set_jsSlice_0 split: if_splits)

lemma format_sections:
  assumes "memories \<noteq> []"
  shows "formatMemoriesAsContext memories maxTokens =
     contextHeader @
     sectionText (ascii ''[CRITICAL] MUST FOLLOW - DO NOT VIOLATE:'') [10003, 32]
       (criticalEntries (compressMemories memories maxTokens)) @
     sectionText (ascii ''[HIGH] STRONGLY RECOMMENDED:'') [8226, 32]
       (highEntries (compressMemories memories maxTokens)) @
     sectionText (ascii ''[MEDIUM] RECOMMENDED:'') [45, 32]
       (mediumEntries (compressMemories memories maxTokens)) @
     contextFooter"
proof -
  let ?c = "compressMemories memories maxTokens"
  have c: "(criticalEntries ?c = []) = (filter (\<lambda>m. importance m = CRITICAL) ?c = [])"
    by (cases "filter (\<lambda>m. importance m = CRITICAL) ?c") (auto simp: criticalEntries_def jsSlice_0)
  have h: "(highEntries ?c = []) =
      (\<not> (length (filter (\<lambda>m. importance m = HIGH) ?c) > 0 \<and>
          length (filter (\<lambda>m. importance m = CRITICAL) ?c) < 10))"
    by (cases "filter (\<lambda>m. importance m = HIGH) ?c") (auto simp: highEntries_def jsSlice_0 Let_def)
  have m: "(mediumEntries ?c = []) =
      (\<not> (length (filter (\<lambda>m. importance m = MEDIUM) ?c) > 0 \<and>
          length (filter (\<lambda>m. importance m = CRITICAL) ?c) +
          length (filter (\<lambda>m. importance m = HIGH) ?c) < 10))"
    by (cases "filter (\<lambda>m. importance m = MEDIUM) ?c") (auto simp: mediumEntries_def jsSlice_0 Let_def)
  show ?thesis
    using assms unfolding formatMemoriesAsContext_def sectionText_def Let_def c h m
    by (simp del: filter_False)
qed

text \<open>
  Claim C9. For every selection and budget the bundle lists at most 10 critical
  records, and at most 10 records over its three sections together; the entries of a
  section have the importance of the section, so no record of low importance is
  listed; and the text of the bundle is the header, the three sections over these
  entries (a section without entries is absent) and the footer.
\<close>

theorem bundle_at_most_ten:
  "length (criticalEntries (compressMemories memories maxTokens)) \<le> 10 \<and>
   length (criticalEntries (compressMemories memories maxTokens)) +
     length (highEntries (compressMemories memories maxTokens)) +
     length (mediumEntries (compressMemories memories maxTokens)) \<le> 10 \<and>
   (\<forall>m \<in> set (criticalEntries (compressMemories memories maxTokens)). importance m = CRITICAL) \<and>
   (\<forall>m \<in> set (highEntries (compressMemories memories maxTokens)). importance m = HIGH) \<and>
   (\<forall>m \<in> set (mediumEntries (compressMemories memories maxTokens)). importance m = MEDIUM) \<and>
   (memories \<noteq> [] \<longrightarrow>
    formatMemoriesAsContext memories maxTokens =
     contextHeader @
     sectionText (ascii ''[CRITICAL] MUST FOLLOW - DO NOT VIOLATE:'') [10003, 32]
       (criticalEntries (compressMemories memories maxTokens)) @
     sectionText (ascii ''[HIGH] STRONGLY RECOMMENDED:'') [8226, 32]
       (highEntries (compressMemories memories maxTokens)) @
     sectionText (ascii ''[MEDIUM] RECOMMENDED:'') [45, 32]
       (mediumEntries (compressMemories memories maxTokens)) @
     contextFooter)"
  using length_criticalEntries length_entries entries_importance format_sections
  by (intro conjI ballI impI) blast+

text \<open>
  Claim C10. For the empty selection \<open>formatMemoriesAsContext\<close> returns the empty string,
  which contains neither the header marker, nor the marker the injector looks for, nor
  the footer marker; and when the selection for the editor's file is empty,
  \<open>injectMemoriesToEditor\<close> leaves the document and the set of injected ids as they were.
\<close>

theorem empty_selection_injects_nothing:
  "formatMemoriesAsContext [] maxTokens = [] \<and>
   \<not> includesStr (formatMemoriesAsContext [] maxTokens) (ascii ''CURSOR MEMORY CONTEXT - PROJECT RULES'') \<and>
   \<not> includesStr (formatMemoriesAsContext [] maxTokens) (ascii ''CURSOR MEMORY CONTEXT'') \<and>
   \<not> includesStr (formatMemoriesAsContext [] maxTokens) (ascii ''END OF MEMORY CONTEXT'') \<and>
   (getRelevantMemoriesForFile extractCodeFeatures storedMemories (Some (fileNameE editor)) = [] \<longrightarrow>
    injectMemoriesToEditor extractCodeFeatures storedMemories editor injectedMemories =
      (editor, injectedMemories))"
  by (simp add: formatMemoriesAsContext_def injectMemoriesToEditor_def ascii_def)

text \<open>The theorem at an empty corpus.\<close>

theorem empty_selection_injects_nothing_witness:
  "getRelevantMemoriesForFile exExtract [] (Some (fileNameE exEditor)) = [] \<and>
   injectMemoriesToEditor exExtract [] exEditor {} = (exEditor, {})"
  using empty_selection_injects_nothing[of 2000 exExtract "[]" "exEditor" "{}"]
  by (simp add: getRelevantMemoriesForFile_def ascii_def Let_def jsSlice_def exEditor_def)

text \<open>The theorem at a selection of two critical records.\<close>

theorem bundle_at_most_ten_witness:
  "[exA, exB] \<noteq> [] \<and>
   length (criticalEntries (compressMemories [exA, exB] 2000)) +
     length (highEntries (compressMemories [exA, exB] 2000)) +
     length (mediumEntries (compressMemories [exA, exB] 2000)) \<le> 10 \<and>
   formatMemoriesAsContext [exA, exB] 2000 =
     contextHeader @
     sectionText (ascii ''[CRITICAL] MUST FOLLOW - DO NOT VIOLATE:'') [10003, 32]
       (criticalEntries (compressMemories [exA, exB] 2000)) @
     sectionText (ascii ''[HIGH] STRONGLY RECOMMENDED:'') [8226, 32]
       (highEntries (compressMemories [exA, exB] 2000)) @
     sectionText (ascii ''[MEDIUM] RECOMMENDED:'') [45, 32]
       (mediumEntries (compressMemories [exA, exB] 2000)) @
     contextFooter"
  using bundle_at_most_ten[of "[exA, exB]" 2000] by simp

section \<open>The matcher on the expressions of the injector\<close>

subsection \<open>One code unit of a class\<close>

lemma rx_at_Chars:
  "rx_at (Chars P) l s = (case s of [] \<Rightarrow> None | c # r \<Rightarrow> if P c then Some ([c], []) else None)"
  by (auto simp: rx_at_def split: list.splits)

lemma rx_scan_Chars:
  "rx_scan (Chars P) l s = map (\<lambda>c. if P c then Inr ([c], []) else Inl c) s"
  by (induction s arbitrary: l) (auto simp: rx_scan_Nil rx_scan_Cons rx_at_Chars)

lemma rx_match_g_Chars: "rx_match_g (Chars P) s = map (\<lambda>c. [c]) (filter P s)"
  by (induction s) (auto simp: rx_match_g_def rx_matches_def rx_scan_Chars)

lemma rx_test_Chars: "rx_test (Chars P) s = list_ex P s"
  by (induction s) (auto simp: rx_test_def rx_match_def rx_matches_def rx_scan_Chars split: list.splits)

subsection \<open>A run of code units of a class\<close>

lemma rxm_Star_Chars:
  "\<exists>tl. rxm (Star (Chars P)) (l, s, cs) = (rev (takeWhile P s) @ l, dropWhile P s, cs) # tl"
proof (induction s arbitrary: l)
  case Nil
  show ?case by simp
next
  case (Cons c r)
  show ?case
  proof (cases "P c")
    case True
    from Cons[of "c # l"] obtain tl where
      "rxm (Star (Chars P)) (c # l, r, cs) = (rev (takeWhile P r) @ c # l, dropWhile P r, cs) # tl"
      by blast
    with True show ?thesis by simp
  next
    case False
    then show ?thesis by simp
  qed
qed

lemma take_length_dropWhile:
  "take (length r - length (dropWhile P r)) r = takeWhile P r"
proof -
  have "length r - length (dropWhile P r) = length (takeWhile P r)"
    by (metis add_diff_cancel_right' length_append takeWhile_dropWhile_id)
  then show ?thesis by (simp add: takeWhile_eq_take[symmetric])
qed

lemma rx_at_Rep1_Chars:
  "rx_at (Rep1 (Chars P)) l s =
     (case s of [] \<Rightarrow> None
      | c # r \<Rightarrow> if P c then Some (c # takeWhile P r, []) else None)"
proof (cases s)
  case Nil
  then show ?thesis by (simp add: rx_at_def Rep1_def)
next
  case (Cons c r)
  show ?thesis
  proof (cases "P c")
    case True
    obtain tl where t: "rxm (Star (Chars P)) (c # l, r, []) = (rev (takeWhile P r) @ c # l, dropWhile P r, []) # tl"
      using rxm_Star_Chars by blast
    have "length r - length (dropWhile P r) \<le> length r" by simp
    have "Suc (length r) - length (dropWhile P r) = Suc (length r - length (dropWhile P r))"
      by (simp add: Suc_diff_le length_dropWhile_le)
    then show ?thesis using True Cons t
      by (simp add: rx_at_def Rep1_def take_length_dropWhile)
  next
    case False
    then show ?thesis using Cons by (simp add: rx_at_def Rep1_def)
  qed
qed

lemma rx_scan_Rep1_Nil: "rx_scan (Rep1 (Chars P)) l [] = []"
  by (simp add: rx_scan_Nil rx_at_Rep1_Chars)

lemma rx_scan_Rep1_Cons:
  "rx_scan (Rep1 (Chars P)) l (c # r) =
     (if P c then Inr (c # takeWhile P r, []) # rx_scan (Rep1 (Chars P)) (rev (c # takeWhile P r) @ l) (dropWhile P r)
      else Inl c # rx_scan (Rep1 (Chars P)) (c # l) r)"
  by (simp add: rx_scan_Cons rx_at_Rep1_Chars dropWhile_eq_drop[symmetric])

lemma rx_scan_Rep1_indep:
  "rx_scan (Rep1 (Chars P)) l s = rx_scan (Rep1 (Chars P)) [] s"
proof (induction s arbitrary: l rule: length_induct)
  case (1 s)
  show ?case
  proof (cases s)
    case Nil
    then show ?thesis by (simp add: rx_scan_Rep1_Nil)
  next
    case (Cons c r)
    have a: "length (dropWhile P r) < length s" using Cons
      by (simp add: le_imp_less_Suc length_dropWhile_le)
    have b: "length r < length s" using Cons by simp
    show ?thesis
      unfolding Cons rx_scan_Rep1_Cons
      using 1[rule_format, OF a, of "rev (c # takeWhile P r) @ l"]
            1[rule_format, OF a, of "rev (c # takeWhile P r) @ []"]
            1[rule_format, OF b, of "c # l"] 1[rule_format, OF b, of "[c]"]
      by simp
  qed
qed

lemma rx_scan_Rep1_none:
  "\<forall>c \<in> set s. \<not> P c \<Longrightarrow> rx_scan (Rep1 (Chars P)) l s = map Inl s"
  by (induction s arbitrary: l) (auto simp: rx_scan_Rep1_Nil rx_scan_Rep1_Cons)

lemma pieces_ne: "pieces xs \<noteq> []"
  by (induction xs rule: pieces.induct) (auto split: list.splits)

lemma wsPieces_Nil: "wsPieces [] = [[]]"
  by (simp add: wsPieces_def rx_split_def rx_scan_Rep1_Nil)

lemma wsPieces_Cons_other:
  "\<not> isWhiteSpace c \<Longrightarrow> wsPieces (c # r) = (c # hd (wsPieces r)) # tl (wsPieces r)"
  using pieces_ne[of "rx_scan (Rep1 (Chars isWhiteSpace)) [] r"]
  by (simp add: wsPieces_def rx_split_def rx_scan_Rep1_Cons rx_scan_Rep1_indep[of _ "[c]"]
           split: list.splits)

lemma wsPieces_Cons_space:
  assumes "isWhiteSpace c"
  shows "\<exists>X. wsPieces (c # r) = [] # X \<and> filter (\<lambda>w. w \<noteq> []) X = filter (\<lambda>w. w \<noteq> []) (wsPieces r)"
proof -
  have p: "wsPieces (c # r) = [] # wsPieces (dropWhile isWhiteSpace r)"
    using assms
    by (simp add: wsPieces_def rx_split_def rx_scan_Rep1_Cons
          rx_scan_Rep1_indep[of _ "rev (takeWhile isWhiteSpace r) @ [c]"])
  show ?thesis
  proof (cases r)
    case Nil
    then show ?thesis using p by simp
  next
    case (Cons d r')
    show ?thesis
    proof (cases "isWhiteSpace d")
      case True
      have "wsPieces r = [] # wsPieces (dropWhile isWhiteSpace r')"
        using True unfolding Cons
        by (simp add: wsPieces_def rx_split_def rx_scan_Rep1_Cons
              rx_scan_Rep1_indep[of _ "rev (takeWhile isWhiteSpace r') @ [d]"])
      then show ?thesis using p True Cons by simp
    next
      case False
      then show ?thesis using p Cons by simp
    qed
  qed
qed

lemma wordsFrom_wsPieces:
  "wordsFrom w s = filter (\<lambda>x. x \<noteq> []) ((w @ hd (wsPieces s)) # tl (wsPieces s))"
proof (induction s arbitrary: w)
  case Nil
  show ?case by (simp add: wsPieces_Nil)
next
  case (Cons c r)
  show ?case
  proof (cases "isWhiteSpace c")
    case True
    obtain X where X: "wsPieces (c # r) = [] # X"
      "filter (\<lambda>w. w \<noteq> []) X = filter (\<lambda>w. w \<noteq> []) (wsPieces r)"
      using wsPieces_Cons_space[OF True] by blast
    have ne: "wsPieces r \<noteq> []" by (simp add: wsPieces_def rx_split_def pieces_ne)
    have "wordsFrom [] r = filter (\<lambda>x. x \<noteq> []) (wsPieces r)"
      using Cons[of "[]"] ne by simp
    then show ?thesis using True X by simp
  next
    case False
    show ?thesis using False Cons[of "w @ [c]"] by (simp add: wsPieces_Cons_other)
  qed
qed

lemma spec_words_split:
  "spec_words s = filter (\<lambda>w. w \<noteq> []) (rx_split (Rep1 (Chars isWhiteSpace)) s)"
proof -
  have ne: "wsPieces s \<noteq> []" by (simp add: wsPieces_def rx_split_def pieces_ne)
  show ?thesis using wordsFrom_wsPieces[of "[]" s] ne
    by (simp add: spec_words_def wsPieces_def[symmetric])
qed

lemma letter_words:
  "filter (\<lambda>w. rx_test (Chars isLetter) w) (rx_split (Rep1 (Chars isWhiteSpace)) s) =
   filter (list_ex isLetter) (spec_words s)"
proof -
  have "filter (list_ex isLetter) (filter (\<lambda>w. w \<noteq> []) xs) = filter (list_ex isLetter) xs" for xs
    by (induction xs) auto
  then show ?thesis by (simp add: spec_words_split rx_test_Chars)
qed

lemma ceiling_three_halves: "nat \<lceil>(of_nat c :: rat) * (3 / 2) + of_nat w\<rceil> = (3 * c + 1) div 2 + w"
proof -
  have "\<lceil>(of_nat c :: rat) * (3 / 2) + of_nat w\<rceil> = \<lceil>(of_nat c :: rat) * (3 / 2)\<rceil> + int w"
    by (metis ceiling_add_of_int of_int_of_nat_eq)
  moreover have "\<lceil>(of_nat c :: rat) * (3 / 2)\<rceil> = int ((3 * c + 1) div 2)"
  proof -
    have "(of_nat c :: rat) * (3 / 2) = of_int (3 * int c) / of_int 2" by simp
    then have "\<lceil>(of_nat c :: rat) * (3 / 2)\<rceil> = - ((- (3 * int c)) div 2)"
      by (metis ceiling_divide_eq_div)
    also have "\<dots> = int ((3 * c + 1) div 2)" by (simp add: zdiv_int)
    finally show ?thesis .
  qed
  ultimately show ?thesis by simp
qed

lemma estimateTokens_eq:
  "estimateTokens text =
     nat \<lceil>(of_nat (length (filter isChineseChar text)) :: rat) * (3 / 2) +
          of_nat (length (filter (list_ex isLetter) (spec_words text)))\<rceil>"
  by (simp add: estimateTokens_def Let_def rx_match_g_Chars letter_words)

lemma estimateTokens_div:
  "estimateTokens text =
     (3 * length (filter isChineseChar text) + 1) div 2 +
     length (filter (list_ex isLetter) (spec_words text))"
  by (simp only: estimateTokens_eq ceiling_three_halves)

text \<open>
  Claim C7, amended. For every string the token estimator returns the ceiling of 1.5 times
  the number of code units in U+4E00 to U+9FA5 plus the number of words that contain
  an ASCII letter, a word being a maximal run of code units that are not white space;
  in whole numbers, \<open>(3 c + 1) div 2 + w\<close>. Here \<open>spec_words\<close> lists the words by a scan
  of the string, independently of the regular expressions of the source.
\<close>

theorem estimateTokens_formula:
  "estimateTokens text =
     nat \<lceil>(of_nat (length (filter isChineseChar text)) :: rat) * (3 / 2) +
          of_nat (length (filter (list_ex isLetter) (spec_words text)))\<rceil> \<and>
   estimateTokens text =
     (3 * length (filter isChineseChar text) + 1) div 2 +
     length (filter (list_ex isLetter) (spec_words text))"
  using estimateTokens_eq estimateTokens_div by blast

text \<open>
  The claim as stated counts the words without CJK characters. The string
  \<open>123 456\<close> has two such words and no CJK character, and its estimate is 0.
\<close>

theorem estimateTokens_counterexample:
  "estimateTokens (ascii ''123 456'') = 0 \<and> spec_estimate (ascii ''123 456'') = 2"
  by (simp add: estimateTokens_div spec_estimate_def spec_nonCjkWordCount_def spec_words_def
        ascii_def isWhiteSpace_def isChineseChar_def isLetter_def isUpper_def isLower_def)

section \<open>The compressor\<close>

subsection \<open>Content without white space and filler words\<close>

lemma dropWhile_none: "\<forall>c \<in> set s. \<not> P c \<Longrightarrow> dropWhile P s = s"
  by (cases s) auto

lemma trim_none: "\<forall>c \<in> set s. \<not> isWhiteSpace c \<Longrightarrow> trim s = s"
  by (simp add: trim_def dropWhile_none)

lemma rx_replace_ws_none:
  "\<forall>c \<in> set s. \<not> isWhiteSpace c \<Longrightarrow> rx_replace_g (Rep1 (Chars isWhiteSpace)) x s = s"
  by (simp add: rx_replace_g_def rx_scan_Rep1_none comp_def)

lemma rx_at_Lit_other:
  "(case s of [] \<Rightarrow> True | c # _ \<Rightarrow> c \<noteq> w) \<Longrightarrow> rx_at (Seq (Ch w) X) l s = None"
  by (cases s) (auto simp: rx_at_def Ch_def)

lemma rx_scan_Lit_none:
  "w \<notin> set s \<Longrightarrow> rx_scan (Seq (Ch w) X) l s = map Inl s"
  by (induction s arbitrary: l) (auto simp: rx_scan_Nil rx_scan_Cons rx_at_Lit_other)

lemma rx_replace_Lit_none:
  "w \<notin> set s \<Longrightarrow> rx_replace_g (Seq (Ch w) X) x s = s"
  by (simp add: rx_replace_g_def rx_scan_Lit_none comp_def)

lemma compressContent_plain:
  assumes "\<forall>c \<in> set s. plainUnit c"
  shows "compressContent s a =
     (if length s > 200 \<and> a then take 100 s @ ascii ''...'' @ drop (length s - 100) s
      else if length s > 300 then take 300 s @ ascii ''...'' else s)"
proof -
  have ws: "\<forall>c \<in> set s. \<not> isWhiteSpace c" using assms by (simp add: plainUnit_def)
  have w: "30340 \<notin> set s" "20102 \<notin> set s" "21644 \<notin> set s" "25110 \<notin> set s" "20197 \<notin> set s"
    "36824 \<notin> set s"
    using assms by (auto simp: plainUnit_def)
  have f: "fold (\<lambda>word c. rx_replace_g (Lit word) [] c) redundantWords s = s"
    by (simp add: redundantWords_def rx_replace_Lit_none w)
  show ?thesis
    by (simp add: compressContent_def rx_replace_ws_none[OF ws] trim_none[OF ws] f Let_def
          substring_def substringFrom_def)
qed

lemma wordsFrom_none:
  "\<forall>c \<in> set s. \<not> isWhiteSpace c \<Longrightarrow> wordsFrom w s = (if w @ s = [] then [] else [w @ s])"
  by (induction s arbitrary: w) auto

lemma estimateTokens_cjk:
  assumes "\<forall>c \<in> set s. isChineseChar c"
  shows "estimateTokens s = (3 * length s + 1) div 2"
proof -
  have ws: "\<forall>c \<in> set s. \<not> isWhiteSpace c"
    using assms by (auto simp: isChineseChar_def isWhiteSpace_def)
  have nl: "\<not> list_ex isLetter s"
    using assms by (auto simp: list_ex_iff isChineseChar_def isLetter_def isUpper_def isLower_def)
  have "filter isChineseChar s = s" using assms by (simp add: filter_id_conv)
  then show ?thesis using nl
    by (simp add: estimateTokens_div spec_words_def wordsFrom_none[OF ws])
qed

subsection \<open>The loop of the compressor\<close>

lemma compressLoop_fits:
  "int (tc + sum_list (map lightTokens pre)) \<le> B \<Longrightarrow>
   compressLoop B (pre @ xs) acc tc =
   compressLoop B xs (acc @ map light pre) (tc + sum_list (map lightTokens pre))"
proof (induction pre arbitrary: acc tc)
  case Nil
  show ?case by simp
next
  case (Cons x pre)
  have a: "int (tc + lightTokens x) \<le> B" using Cons.prems by simp
  have b: "int ((tc + lightTokens x) + sum_list (map lightTokens pre)) \<le> B"
    using Cons.prems by (simp add: add.assoc)
  show ?case
    using a Cons.IH[OF b, of "acc @ [light x]"]
    by (simp add: Let_def lightTokens_def[symmetric] light_def[symmetric] add.assoc)
qed

lemma compressLoop_overflow:
  "B < int (tc + lightTokens m) \<Longrightarrow> importance m = CRITICAL \<Longrightarrow> length acc < 20 \<Longrightarrow>
   compressLoop B (m # rest) acc tc = acc @ [aggressive m]"
  by (simp add: Let_def lightTokens_def aggressive_def)

lemma compressMemories_forced:
  assumes "sort_key (\<lambda>m. importanceOrder (importance m)) memories = pre @ m # rest"
    and "int (sum_list (map lightTokens pre)) \<le> maxTokens"
    and "maxTokens < int (sum_list (map lightTokens pre) + lightTokens m)"
    and "importance m = CRITICAL" and "length pre < 20"
  shows "compressMemories memories maxTokens = map light pre @ [aggressive m]"
proof -
  have "compressLoop maxTokens (pre @ m # rest) [] 0 =
        compressLoop maxTokens (m # rest) ([] @ map light pre) (0 + sum_list (map lightTokens pre))"
    by (rule compressLoop_fits) (use assms(2) in simp)
  also have "\<dots> = ([] @ map light pre) @ [aggressive m]"
    by (rule compressLoop_overflow) (use assms in simp_all)
  finally show ?thesis by (simp add: compressMemories_def assms(1))
qed

lemma ascii_small: "c \<in> set (ascii s) \<Longrightarrow> c < 256"
proof -
  have "(of_char x :: nat) < 256" for x
  proof -
    have "(of_char x :: nat) = of_char x mod 256" by simp
    also have "\<dots> < 256" by (rule mod_less_divisor) simp
    finally show ?thesis .
  qed
  then show "c \<in> set (ascii s) \<Longrightarrow> c < 256" by (auto simp: ascii_def)
qed

lemma exLong_plain: "i < 15 \<Longrightarrow> \<forall>c \<in> set (content (exLong i)). plainUnit c"
  by (auto simp: exLong_def exMemory_def plainUnit_def isWhiteSpace_def)

lemma exLong_cjk: "i < 15 \<Longrightarrow> \<forall>c \<in> set (content (exLong i)). isChineseChar c"
  by (auto simp: exLong_def exMemory_def isChineseChar_def)

lemma exLong_length: "length (content (exLong i)) = 202"
  by (simp add: exLong_def exMemory_def)

lemma exLong_light_content: "i < 15 \<Longrightarrow> compressContent (content (exLong i)) False = content (exLong i)"
  by (simp add: compressContent_plain[OF exLong_plain] exLong_length)

lemma exLong_light: "i < 15 \<Longrightarrow> light (exLong i) = exLong i"
  by (simp add: light_def exLong_light_content)

lemma exLong_tokens: "i < 15 \<Longrightarrow> estimateTokens (content (exLong i)) = 303"
  by (simp add: estimateTokens_cjk[OF exLong_cjk] exLong_length)

lemma exLong_lightTokens: "i < 15 \<Longrightarrow> lightTokens (exLong i) = 303"
  by (simp add: lightTokens_def exLong_light_content exLong_tokens)

lemma exLong_aggressive_content:
  "i < 15 \<Longrightarrow> compressContent (content (exLong i)) True =
     replicate 100 (20000 + i) @ ascii ''...'' @ replicate 100 (20000 + i)"
  by (simp add: compressContent_plain[OF exLong_plain] exLong_length)
     (simp add: exLong_def exMemory_def)

lemma exLong_importance [simp]: "importance (exLong i) = CRITICAL"
  by (simp add: exLong_def exMemory_def)

lemma exCorpus15_sorted:
  "sort_key (\<lambda>m. importanceOrder (importance m)) exCorpus15 =
   [exLong 0] @ exLong 1 # map exLong [2, 3, 4, 5, 6, 7, 8, 9, 10, 11, 12, 13, 14]"
  by (simp add: exCorpus15_def)

lemma exCorpus15_compressed:
  "compressMemories exCorpus15 500 = [exLong 0, aggressive (exLong 1)]"
  using compressMemories_forced[OF exCorpus15_sorted, of 500]
  by (simp add: exLong_lightTokens exLong_light)

text \<open>
  Claim C1, amended. Let the selection, sorted by importance, be \<open>pre @ m # rest\<close>,
  where the lightly compressed records of \<open>pre\<close> fit the budget together and \<open>m\<close> is the
  first record that does not fit. If \<open>m\<close> is critical and \<open>pre\<close> has fewer than 20
  records, the compressor keeps the records of \<open>pre\<close> lightly compressed and appends
  \<open>m\<close> aggressively compressed, outside the budget check. The bundle lists at most 10
  critical records.
\<close>

theorem compress_forces_first_overflow:
  assumes "sort_key (\<lambda>m. importanceOrder (importance m)) memories = pre @ m # rest"
    and "int (sum_list (map lightTokens pre)) \<le> maxTokens"
    and "maxTokens < int (sum_list (map lightTokens pre) + lightTokens m)"
    and "importance m = CRITICAL" and "length pre < 20"
  shows "prefix (map light pre @ [aggressive m]) (compressMemories memories maxTokens) \<and>
         length (criticalEntries (compressMemories memories maxTokens)) \<le> 10"
  using compressMemories_forced[OF assms] length_criticalEntries by simp

text \<open>
  The theorem at the specification's example: 15 critical records of 303 estimated
  tokens each (202 CJK characters) under a budget of 500.
\<close>

theorem compress_forces_first_overflow_witness:
  "sort_key (\<lambda>m. importanceOrder (importance m)) exCorpus15 =
     [exLong 0] @ exLong 1 # map exLong [2, 3, 4, 5, 6, 7, 8, 9, 10, 11, 12, 13, 14] \<and>
   int (sum_list (map lightTokens [exLong 0])) \<le> 500 \<and>
   500 < int (sum_list (map lightTokens [exLong 0]) + lightTokens (exLong 1)) \<and>
   importance (exLong 1) = CRITICAL \<and> length [exLong 0] < 20 \<and>
   prefix (map light [exLong 0] @ [aggressive (exLong 1)]) (compressMemories exCorpus15 500)"
  using compress_forces_first_overflow[OF exCorpus15_sorted, of 500]
  by (simp add: exLong_lightTokens exCorpus15_sorted)

text \<open>
  The claim as stated has all 15 records of that example in the output. The compressor
  returns two records; the third record of the selection is critical, and neither its
  id is among the compressed records nor any code unit of its content in the bundle.
\<close>

theorem compress_drops_critical_counterexample:
  "exLong 2 \<in> set exCorpus15 \<and> length exCorpus15 = 15 \<and> importance (exLong 2) = CRITICAL \<and>
   estimateTokens (content (exLong 2)) = 303 \<and>
   length (compressMemories exCorpus15 500) = 2 \<and>
   mid (exLong 2) \<notin> set (map mid (compressMemories exCorpus15 500)) \<and>
   set (content (exLong 2)) \<inter> set (formatMemoriesAsContext exCorpus15 500) = {}"
proof -
  have ids: "mid (exLong 2) \<notin> set (map mid (compressMemories exCorpus15 500))"
    by (simp add: exCorpus15_compressed aggressive_def exLong_def exMemory_def
          showNat.simps[of 0] showNat.simps[of "Suc 0"] showNat.simps[of 2])
  have ne: "exCorpus15 \<noteq> []" by (simp add: exCorpus15_def)
  have c: "criticalEntries [exLong 0, aggressive (exLong 1)] = [exLong 0, aggressive (exLong 1)]"
          "highEntries [exLong 0, aggressive (exLong 1)] = []"
          "mediumEntries [exLong 0, aggressive (exLong 1)] = []"
    by (simp_all add: criticalEntries_def highEntries_def mediumEntries_def jsSlice_def
          aggressive_def Let_def)
  have chars: "\<forall>c \<in> set (formatMemoriesAsContext exCorpus15 500).
               c < 256 \<or> c = 10003 \<or> c = 20000 \<or> c = 20001"
    unfolding format_sections[OF ne] exCorpus15_compressed c
    by (auto simp: contextHeader_def contextFooter_def sectionText_def entryLines_def
          aggressive_def exLong_aggressive_content dest!: ascii_small)
       (auto simp: exLong_def exMemory_def)
  have "set (content (exLong 2)) = {20002}" by (simp add: exLong_def exMemory_def)
  then have disj: "set (content (exLong 2)) \<inter> set (formatMemoriesAsContext exCorpus15 500) = {}"
    using chars by auto
  show ?thesis
    using ids disj by (simp add: exCorpus15_compressed exLong_tokens) (simp add: exCorpus15_def)
qed

section \<open>The pattern-similarity checker\<close>

lemma upt_eval: "[i..<j] = (if i < j then i # [Suc i..<j] else [])"
  by (simp add: upt_rec)














section \<open>The cache of the architecture checker\<close>

lemma runPendingLoads_Nil: "pendingLoads ac = [] \<Longrightarrow> runPendingLoads now ac = ac"
  by (simp add: runPendingLoads_def)

lemma fold_load:
  "fold (\<lambda>allMemories a. a\<lparr>architectureMemoriesOf := loadFilter allMemories, lastUpdateTime := now\<rparr>)
        (xs @ [stored]) a =
   (fold (\<lambda>allMemories a. a\<lparr>architectureMemoriesOf := loadFilter allMemories, lastUpdateTime := now\<rparr>)
        xs a)\<lparr>architectureMemoriesOf := loadFilter stored, lastUpdateTime := now\<rparr>"
  by simp

lemma fold_load_pending:
  "pendingLoads (fold (\<lambda>allMemories a. a\<lparr>architectureMemoriesOf := loadFilter allMemories, lastUpdateTime := now\<rparr>) xs a)
     = pendingLoads a"
  by (induction xs arbitrary: a) auto

lemma runPendingLoads_last:
  "cacheLoaded stored (runPendingLoads now (ac\<lparr>pendingLoads := xs @ [stored]\<rparr>))"
  by (simp add: runPendingLoads_def cacheLoaded_def fold_load_pending)

lemma checkArchitecture_issues:
  assumes "cacheLoaded stored ac \<or> (ac = newArchitectureChecker stored \<and> updateInterval < now)"
  shows "a_issues (fst (checkArchitecture env stored now code filePathArg lang ac)) =
           archIssuesOn env (loadFilter stored) code filePathArg lang \<and>
         cacheLoaded stored (snd (checkArchitecture env stored now code filePathArg lang ac))"
proof -
  define ac1 where "ac1 = (if now - lastUpdateTime ac > updateInterval
                 then runPendingLoads now (ac\<lparr>pendingLoads := pendingLoads ac @ [stored]\<rparr>)
                 else ac)"
  have l1: "cacheLoaded stored ac1"
  proof (cases "now - lastUpdateTime ac > updateInterval")
    case True
    then show ?thesis by (simp add: ac1_def runPendingLoads_last)
  next
    case False
    then have "cacheLoaded stored ac"
      using assms by (auto simp: newArchitectureChecker_def)
    then show ?thesis using False by (simp add: ac1_def)
  qed
  then have l2: "runPendingLoads now ac1 = ac1"
    by (simp add: cacheLoaded_def runPendingLoads_Nil)
  have c: "architectureMemoriesOf ac1 = loadFilter stored" using l1 by (simp add: cacheLoaded_def)
  show ?thesis
    unfolding checkArchitecture_def Let_def ac1_def[symmetric] l2
    using l1 by (simp add: c archIssuesOn_def)
qed

section \<open>Determinism of the validator\<close>

lemma validateCode_no_checker:
  "architectureChecker cv = None \<Longrightarrow>
   validateCode env stored now code filePathArg lang cv =
     (resultOf (validationIssuesOn env (cv_memories cv) None code filePathArg lang), cv)"
  by (simp add: validateCode_def validationIssuesOn_def resultOf_def Let_def)

lemma validateCode_checker:
  assumes "architectureChecker cv = Some ac"
    and "cacheLoaded stored ac \<or> (ac = newArchitectureChecker stored \<and> updateInterval < now)"
  shows "fst (validateCode env stored now code filePathArg lang cv) =
           resultOf (validationIssuesOn env (cv_memories cv) (Some (loadFilter stored)) code filePathArg lang) \<and>
         cv_memories (snd (validateCode env stored now code filePathArg lang cv)) = cv_memories cv \<and>
         (\<exists>ac'. architectureChecker (snd (validateCode env stored now code filePathArg lang cv)) = Some ac' \<and>
                cacheLoaded stored ac')"
proof -
  obtain r ac' where c: "checkArchitecture env stored now code filePathArg lang ac = (r, ac')"
    by (cases "checkArchitecture env stored now code filePathArg lang ac") auto
  from checkArchitecture_issues[OF assms(2), of env code filePathArg lang]
  have i: "a_issues r = archIssuesOn env (loadFilter stored) code filePathArg lang"
    and l: "cacheLoaded stored ac'"
    by (simp_all add: c)
  show ?thesis
    using assms(1) l
    by (simp add: validateCode_def validationIssuesOn_def resultOf_def Let_def c i)
qed

text \<open>
  Claim C8. A validator is built over the records \<open>memories\<close> and a storage holding
  \<open>stored\<close>, and the storage does not change. Its first call is made at clock \<open>t1\<close>,
  more than the update interval of the checker's cache (10 seconds) after the epoch. Then a
  second call on the same validator, at any clock \<open>t2\<close>, with the same code, file path
  and language, returns the same result as the first: the same passed flag, the same
  diagnostics in the same order, the same summary. A fresh validator over the same records
  and storage returns that result too, and so does a validator built without a storage.
\<close>

theorem validateCode_deterministic:
  assumes "updateInterval < t1"
  shows "fst (validateCode env stored t2 code filePathArg lang
                (snd (validateCode env stored t1 code filePathArg lang
                        (newCodeValidator memories (Some stored))))) =
         fst (validateCode env stored t1 code filePathArg lang
                (newCodeValidator memories (Some stored))) \<and>
         (updateInterval < t2 \<longrightarrow>
          fst (validateCode env stored t2 code filePathArg lang
                 (newCodeValidator memories (Some stored))) =
          fst (validateCode env stored t1 code filePathArg lang
                 (newCodeValidator memories (Some stored)))) \<and>
         fst (validateCode env stored t2 code filePathArg lang
                (snd (validateCode env stored' t1 code filePathArg lang
                        (newCodeValidator memories None)))) =
         fst (validateCode env stored' t1 code filePathArg lang (newCodeValidator memories None))"
proof -
  let ?cv = "newCodeValidator memories (Some stored)"
  let ?R = "resultOf (validationIssuesOn env memories (Some (loadFilter stored)) code filePathArg lang)"
  have a: "architectureChecker ?cv = Some (newArchitectureChecker stored)"
    and m: "cv_memories ?cv = memories"
    by (simp_all add: newCodeValidator_def)
  have first: "fst (validateCode env stored t1 code filePathArg lang ?cv) = ?R \<and>
      cv_memories (snd (validateCode env stored t1 code filePathArg lang ?cv)) = memories \<and>
      (\<exists>ac'. architectureChecker (snd (validateCode env stored t1 code filePathArg lang ?cv)) = Some ac' \<and>
             cacheLoaded stored ac')"
    using validateCode_checker[OF a, of stored t1 env code filePathArg lang] assms by (simp add: m)
  then obtain ac' where ac': "architectureChecker (snd (validateCode env stored t1 code filePathArg lang ?cv)) = Some ac'"
      "cacheLoaded stored ac'"
    by blast
  have second: "fst (validateCode env stored t2 code filePathArg lang
                (snd (validateCode env stored t1 code filePathArg lang ?cv))) = ?R"
    using validateCode_checker[OF ac'(1), of stored t2 env code filePathArg lang] ac'(2) first
    by simp
  have fresh: "updateInterval < t2 \<longrightarrow>
      fst (validateCode env stored t2 code filePathArg lang ?cv) = ?R"
    using validateCode_checker[OF a, of stored t2 env code filePathArg lang] by (simp add: m)
  have none: "fst (validateCode env stored t2 code filePathArg lang
                (snd (validateCode env stored' t1 code filePathArg lang
                        (newCodeValidator memories None)))) =
         fst (validateCode env stored' t1 code filePathArg lang (newCodeValidator memories None))"
    by (simp add: validateCode_no_checker newCodeValidator_def)
  show ?thesis using first second fresh none by simp
qed

section \<open>Running the validator\<close>

lemmas val_ev =
 kwForbid_def kwNotAllowed_def kwCannot_def kwMust_def kwShould_def kwRequire_def
  kwDirectory_def kwDirStructure_def kwFolder_def kwModule_def kwDependency_def kwLayer_def
  kwNaming_def kwNamingRule_def kwCamel_def kwPascal_def kwUnderscore_def kwSnake_def
  kwComment_def kwFunctionLength_def kwCodeLength_def kwIf_def kwThen_def kwWhen_def
  kwTime_def isColon_def notStopComma_def notStopCommaSemi_def isItemSeparator_def
  isSentenceEnd_def anyChar_def isIdentStart_def isQuote_def firstGroup_def orElse_def
  truthy_def rxAfterKeyword_def extractInSentence_def extractAfterKeywords_def
  extractForbiddenPatternsA_def extractRequiredPatterns_def extractDirectoryRequirements_def
  extractModulePatterns_def extractForbiddenDependencies_def loadFilter_def
  checkArchitectureConstraints_def shouldBeInDirectory_def hasModulePattern_def
  checkModuleDivision_def rxGoImport_def rxQuoted_def rxParenthesized_def rxFrom_def
  rxRequireCall_def rxJsImport_def firstPiece_def extractDependencies_def
  extractLayerRules_def checkLayerRuleViolation_def checkDependencies_def
  extractNamingRules_def rxIdent_def rxUpperIdent_def rxFuncDecl_def rxFuncName_def
  rxTypeDecl_def rxTypeName_def rxJsDecl_def rxJsName_def groupOf_def extractIdentifiers_def
  isAlnum_def rxCamel_def rxPascal_def rxSnake_def rxUpperSnake_def matchesNamingRule_def
  checkArchitectureNaming_def updateInterval_def newArchitectureChecker_def
  runPendingLoads_def countType_def archSummary_def checkArchitecture_def rxKeywordItem_def
  rxKeywordPrefix_def extractItems_def extractForbiddenPatterns_def extractForbiddenItems_def
  extractRequiredItems_def rxDirStructure_def validateArchitecture_def
  getDefaultNamingStyle_def extractNamingStyle_def getNamingRulesForLanguage_def
  rxCamelHump_def isValidNaming_def rxWord_def variablePatterns_def functionPatterns_def
  classPatterns_def namingMessage_def checkVariableNaming_def checkFunctionNaming_def
  checkClassNaming_def checkNamingViolations_def validateNaming_def rxFunctionWord_def
  countFunctionLines_def validateCodeStyle_def extractKeywords_def splitItems_def rxIfThen_def
  rxIfCondition_def rxThenRequirement_def rxWhenMust_def rxWhenCondition_def
  rxMustRequirement_def simpleConstraints_def conditionalConstraints_def
  extractBusinessConstraints_def checkBusinessRuleViolations_def validateBusinessRules_def
  validateConstraints_def newCodeValidator_def toValidationIssue_def validationSummary_def
  validateCode_def
  archIssuesOn_def cacheLoaded_def forbiddenIssue_def forbiddenArchIssue_def mentionsForbidden_def
  validationIssuesOn_def resultOf_def exForbid_def exForbidDep_def exEnv_def exEvalCode_def exImportCode_def

section \<open>Severity of a violated forbidden constraint\<close>

lemma filter_critical_only:
  "filter (\<lambda>m. A m \<and> importance m = CRITICAL) (filter (\<lambda>m. importance m = CRITICAL) ms) =
   filter (\<lambda>m. A m \<and> importance m = CRITICAL) ms"
  by (induction ms) auto

lemma validateConstraints_member:
  assumes "m \<in> set memories" "category m = CONSTRAINT" "importance m = CRITICAL"
    and "includesStr (content m) kwForbid \<or> includesStr (content m) kwNotAllowed"
    and "item \<in> set (extractForbiddenItems (content m))" "includesStr code item"
  shows "forbiddenIssue m item \<in> set (validateConstraints memories code)"
  using assms unfolding validateConstraints_def forbiddenIssue_def
  by (simp only: set_concat set_map set_filter) force

lemma validateConstraints_critical:
  "validateConstraints (filter (\<lambda>m. importance m = CRITICAL) memories) code =
   validateConstraints memories code"
  unfolding validateConstraints_def by (simp only: filter_critical_only)

lemma checkArchitectureConstraints_member:
  assumes "m \<in> set cache" "importance m = CRITICAL"
    and "mentionsForbidden (toLowerCase (content m))"
    and "p \<in> set (extractForbiddenPatternsA (content m))"
    and "includesStr (toLowerCase code) (toLowerCase p)"
  shows "forbiddenArchIssue m p \<in> set (checkArchitectureConstraints cache code filePathArg)"
  using assms unfolding checkArchitectureConstraints_def forbiddenArchIssue_def mentionsForbidden_def Let_def
  by (simp only: set_concat set_map) force

lemma checkArchitectureConstraints_critical:
  "checkArchitectureConstraints (filter (\<lambda>m. importance m = CRITICAL) cache) code filePathArg =
   checkArchitectureConstraints cache code filePathArg"
  unfolding checkArchitectureConstraints_def Let_def
  by (induction cache) auto

text \<open>
  Claim C5, amended. \<open>validateConstraints\<close> looks at the critical constraint records
  only: for each forbidden item of such a record that is a literal substring of the code it
  gives a diagnostic of severity error. \<open>checkArchitectureConstraints\<close> looks at the
  critical records of its cache only: for each forbidden pattern of such a record that
  occurs in the code, letter case ignored, it gives a diagnostic of severity error. The
  diagnostics of both functions are those of the critical records alone: a record of any
  other importance adds nothing to them.
\<close>

theorem forbidden_severity:
  "(\<forall>m \<in> set memories. \<forall>item \<in> set (extractForbiddenItems (content m)).
      category m = CONSTRAINT \<and> importance m = CRITICAL \<and>
      (includesStr (content m) kwForbid \<or> includesStr (content m) kwNotAllowed) \<and>
      includesStr code item \<longrightarrow>
      forbiddenIssue m item \<in> set (validateConstraints memories code) \<and>
      v_type (forbiddenIssue m item) = SevError) \<and>
   (\<forall>m \<in> set cache. \<forall>p \<in> set (extractForbiddenPatternsA (content m)).
      importance m = CRITICAL \<and> mentionsForbidden (toLowerCase (content m)) \<and>
      includesStr (toLowerCase code) (toLowerCase p) \<longrightarrow>
      forbiddenArchIssue m p \<in> set (checkArchitectureConstraints cache code filePathArg) \<and>
      a_type (forbiddenArchIssue m p) = SevError) \<and>
   validateConstraints memories code =
     validateConstraints (filter (\<lambda>m. importance m = CRITICAL) memories) code \<and>
   checkArchitectureConstraints cache code filePathArg =
     checkArchitectureConstraints (filter (\<lambda>m. importance m = CRITICAL) cache) code filePathArg"
proof -
  have a: "\<forall>m \<in> set memories. \<forall>item \<in> set (extractForbiddenItems (content m)).
      category m = CONSTRAINT \<and> importance m = CRITICAL \<and>
      (includesStr (content m) kwForbid \<or> includesStr (content m) kwNotAllowed) \<and>
      includesStr code item \<longrightarrow>
      forbiddenIssue m item \<in> set (validateConstraints memories code) \<and>
      v_type (forbiddenIssue m item) = SevError"
    using validateConstraints_member by (simp add: forbiddenIssue_def)
  have b: "\<forall>m \<in> set cache. \<forall>p \<in> set (extractForbiddenPatternsA (content m)).
      importance m = CRITICAL \<and> mentionsForbidden (toLowerCase (content m)) \<and>
      includesStr (toLowerCase code) (toLowerCase p) \<longrightarrow>
      forbiddenArchIssue m p \<in> set (checkArchitectureConstraints cache code filePathArg) \<and>
      a_type (forbiddenArchIssue m p) = SevError"
    using checkArchitectureConstraints_member by (simp add: forbiddenArchIssue_def)
  show ?thesis
    using a b validateConstraints_critical[of memories code]
      checkArchitectureConstraints_critical[of cache code filePathArg]
    by simp
qed

lemma exForbid_items:
  "extractForbiddenItems (content (exForbid cat imp)) = [ascii ''eval('']"
  "extractForbiddenPatternsA (content (exForbid cat imp)) = [ascii ''eval('']"
  by (simp_all add: val_ev str_ev rx_ev Let_def cong: let_weak_cong)

lemma exForbid_found:
  "includesStr (content (exForbid cat imp)) kwForbid"
  "includesStr exEvalCode (ascii ''eval('')"
  "mentionsForbidden (toLowerCase (content (exForbid cat imp)))"
  "includesStr (toLowerCase exEvalCode) (toLowerCase (ascii ''eval(''))"
  by (simp_all add: val_ev str_ev rx_ev Let_def cong: let_weak_cong)

text \<open>
  The theorem at one critical constraint record forbidding \<open>eval(\<close> and the code
  \<open>eval(x)\<close>.
\<close>

theorem forbidden_severity_witness:
  "exForbid CONSTRAINT CRITICAL \<in> set [exForbid CONSTRAINT CRITICAL] \<and>
   ascii ''eval('' \<in> set (extractForbiddenItems (content (exForbid CONSTRAINT CRITICAL))) \<and>
   ascii ''eval('' \<in> set (extractForbiddenPatternsA (content (exForbid CONSTRAINT CRITICAL))) \<and>
   category (exForbid CONSTRAINT CRITICAL) = CONSTRAINT \<and>
   importance (exForbid CONSTRAINT CRITICAL) = CRITICAL \<and>
   includesStr (content (exForbid CONSTRAINT CRITICAL)) kwForbid \<and>
   includesStr exEvalCode (ascii ''eval('') \<and>
   mentionsForbidden (toLowerCase (content (exForbid CONSTRAINT CRITICAL))) \<and>
   includesStr (toLowerCase exEvalCode) (toLowerCase (ascii ''eval('')) \<and>
   forbiddenIssue (exForbid CONSTRAINT CRITICAL) (ascii ''eval('')
     \<in> set (validateConstraints [exForbid CONSTRAINT CRITICAL] exEvalCode) \<and>
   v_type (forbiddenIssue (exForbid CONSTRAINT CRITICAL) (ascii ''eval('')) = SevError \<and>
   forbiddenArchIssue (exForbid CONSTRAINT CRITICAL) (ascii ''eval('')
     \<in> set (checkArchitectureConstraints [exForbid CONSTRAINT CRITICAL] exEvalCode (ascii ''a.txt'')) \<and>
   a_type (forbiddenArchIssue (exForbid CONSTRAINT CRITICAL) (ascii ''eval('')) = SevError"
proof -
  have c: "category (exForbid CONSTRAINT CRITICAL) = CONSTRAINT"
    "importance (exForbid CONSTRAINT CRITICAL) = CRITICAL"
    by (simp_all add: exForbid_def)
  show ?thesis
    using forbidden_severity[of "[exForbid CONSTRAINT CRITICAL]" exEvalCode
        "[exForbid CONSTRAINT CRITICAL]" "ascii ''a.txt''"]
      exForbid_items[of CONSTRAINT CRITICAL] exForbid_found(1,3)[of CONSTRAINT CRITICAL]
      exForbid_found(2,4) c
    by simp
qed

text \<open>
  The claim as stated gives a warning for a violated forbidden constraint of a record of
  high importance. A record of high importance forbids \<open>eval(\<close>, which is a substring
  of the code \<open>eval(x)\<close>: neither of the two functions gives a diagnostic, and the whole
  validation returns none. For a record of high importance that forbids a dependency which
  the code imports, the one diagnostic of the validation is an error.
\<close>

theorem high_record_counterexample:
  "importance (exForbid CONSTRAINT HIGH) = HIGH \<and>
   extractForbiddenItems (content (exForbid CONSTRAINT HIGH)) = [ascii ''eval(''] \<and>
   includesStr exEvalCode (ascii ''eval('') \<and>
   validateConstraints [exForbid CONSTRAINT HIGH] exEvalCode = [] \<and>
   checkArchitectureConstraints [exForbid ARCHITECTURE HIGH] exEvalCode (ascii ''a.txt'') = [] \<and>
   issues (fst (validateCode exEnv [exForbid CONSTRAINT HIGH] 1700000000000 exEvalCode
                  (ascii ''a.txt'') (ascii ''plaintext'')
                  (newCodeValidator [exForbid CONSTRAINT HIGH] (Some [exForbid CONSTRAINT HIGH])))) = [] \<and>
   importance exForbidDep = HIGH \<and>
   map v_type (issues (fst (validateCode exEnv [exForbidDep] 1700000000000 exImportCode
                  (ascii ''a.js'') (ascii ''javascript'')
                  (newCodeValidator [exForbidDep] (Some [exForbidDep]))))) = [SevError]"
proof -
  have t: "updateInterval < 1700000000000" by (simp add: updateInterval_def)
  have r: "fst (validateCode exEnv stored 1700000000000 code filePathArg lang
                  (newCodeValidator stored (Some stored))) =
           resultOf (validationIssuesOn exEnv stored (Some (loadFilter stored)) code filePathArg lang)"
    for stored code filePathArg lang
    using validateCode_checker[of "newCodeValidator stored (Some stored)" "newArchitectureChecker stored"
        stored 1700000000000 exEnv code filePathArg lang] t
    by (simp add: newCodeValidator_def)
  have a: "validateConstraints [exForbid CONSTRAINT HIGH] exEvalCode = []"
    by (simp add: validateConstraints_def exForbid_def)
  have b: "checkArchitectureConstraints [exForbid ARCHITECTURE HIGH] exEvalCode (ascii ''a.txt'') = []"
    by (simp add: checkArchitectureConstraints_def exForbid_def Let_def)
  have c: "validationIssuesOn exEnv [exForbid CONSTRAINT HIGH] (Some (loadFilter [exForbid CONSTRAINT HIGH]))
             exEvalCode (ascii ''a.txt'') (ascii ''plaintext'') = []"
    by (simp add: val_ev str_ev rx_ev Let_def cong: let_weak_cong)
  have d: "map v_type (validationIssuesOn exEnv [exForbidDep] (Some (loadFilter [exForbidDep]))
             exImportCode (ascii ''a.js'') (ascii ''javascript'')) = [SevError]"
    by (simp add: val_ev str_ev rx_ev Let_def upt_eval cong: let_weak_cong)
  have e: "importance (exForbid CONSTRAINT HIGH) = HIGH" "importance exForbidDep = HIGH"
    by (simp_all add: exForbid_def exForbidDep_def)
  show ?thesis
    using a b c d e exForbid_items(1)[of CONSTRAINT HIGH] exForbid_found(2)
    by (simp add: r resultOf_def)
qed

section \<open>The validator gives the same result twice\<close>

text \<open>
  The theorem at one critical constraint record forbidding \<open>eval(\<close> and the code
  \<open>eval(x)\<close>, validated at two clocks five seconds apart: both calls give the same two
  diagnostics and do not pass.
\<close>

theorem validateCode_deterministic_witness:
  "updateInterval < 1700000000000 \<and> updateInterval < 1700000005000 \<and>
   fst (validateCode exEnv [exForbid CONSTRAINT CRITICAL] 1700000005000 exEvalCode
          (ascii ''a.txt'') (ascii ''plaintext'')
          (snd (validateCode exEnv [exForbid CONSTRAINT CRITICAL] 1700000000000 exEvalCode
                  (ascii ''a.txt'') (ascii ''plaintext'')
                  (newCodeValidator [exForbid CONSTRAINT CRITICAL]
                     (Some [exForbid CONSTRAINT CRITICAL]))))) =
   fst (validateCode exEnv [exForbid CONSTRAINT CRITICAL] 1700000000000 exEvalCode
          (ascii ''a.txt'') (ascii ''plaintext'')
          (newCodeValidator [exForbid CONSTRAINT CRITICAL] (Some [exForbid CONSTRAINT CRITICAL]))) \<and>
   fst (validateCode exEnv [exForbid CONSTRAINT CRITICAL] 1700000005000 exEvalCode
          (ascii ''a.txt'') (ascii ''plaintext'')
          (newCodeValidator [exForbid CONSTRAINT CRITICAL] (Some [exForbid CONSTRAINT CRITICAL]))) =
   fst (validateCode exEnv [exForbid CONSTRAINT CRITICAL] 1700000000000 exEvalCode
          (ascii ''a.txt'') (ascii ''plaintext'')
          (newCodeValidator [exForbid CONSTRAINT CRITICAL] (Some [exForbid CONSTRAINT CRITICAL]))) \<and>
   issues (fst (validateCode exEnv [exForbid CONSTRAINT CRITICAL] 1700000000000 exEvalCode
          (ascii ''a.txt'') (ascii ''plaintext'')
          (newCodeValidator [exForbid CONSTRAINT CRITICAL] (Some [exForbid CONSTRAINT CRITICAL])))) =
     [toValidationIssue (forbiddenArchIssue (exForbid CONSTRAINT CRITICAL) (ascii ''eval('')),
      forbiddenIssue (exForbid CONSTRAINT CRITICAL) (ascii ''eval('')] \<and>
   \<not> passed (fst (validateCode exEnv [exForbid CONSTRAINT CRITICAL] 1700000000000 exEvalCode
          (ascii ''a.txt'') (ascii ''plaintext'')
          (newCodeValidator [exForbid CONSTRAINT CRITICAL] (Some [exForbid CONSTRAINT CRITICAL]))))"
proof -
  have t: "updateInterval < 1700000000000" "updateInterval < 1700000005000"
    by (simp_all add: updateInterval_def)
  have r: "fst (validateCode exEnv [exForbid CONSTRAINT CRITICAL] 1700000000000 exEvalCode
                  (ascii ''a.txt'') (ascii ''plaintext'')
                  (newCodeValidator [exForbid CONSTRAINT CRITICAL] (Some [exForbid CONSTRAINT CRITICAL]))) =
           resultOf (validationIssuesOn exEnv [exForbid CONSTRAINT CRITICAL]
                  (Some (loadFilter [exForbid CONSTRAINT CRITICAL])) exEvalCode
                  (ascii ''a.txt'') (ascii ''plaintext''))"
    using validateCode_checker[of "newCodeValidator [exForbid CONSTRAINT CRITICAL] (Some [exForbid CONSTRAINT CRITICAL])"
        "newArchitectureChecker [exForbid CONSTRAINT CRITICAL]"
        "[exForbid CONSTRAINT CRITICAL]" 1700000000000 exEnv exEvalCode "ascii ''a.txt''" "ascii ''plaintext''"] t
    by (simp add: newCodeValidator_def)
  have c: "validationIssuesOn exEnv [exForbid CONSTRAINT CRITICAL]
             (Some (loadFilter [exForbid CONSTRAINT CRITICAL])) exEvalCode
             (ascii ''a.txt'') (ascii ''plaintext'') =
           [toValidationIssue (forbiddenArchIssue (exForbid CONSTRAINT CRITICAL) (ascii ''eval('')),
            forbiddenIssue (exForbid CONSTRAINT CRITICAL) (ascii ''eval('')]"
    by (simp add: val_ev str_ev rx_ev Let_def cong: let_weak_cong)
  have p: "countType SevError (map v_type
            [toValidationIssue (forbiddenArchIssue (exForbid CONSTRAINT CRITICAL) (ascii ''eval('')),
             forbiddenIssue (exForbid CONSTRAINT CRITICAL) (ascii ''eval('')]) \<noteq> 0"
    by (simp add: countType_def toValidationIssue_def forbiddenArchIssue_def forbiddenIssue_def)
  have q: "issues (fst (validateCode exEnv [exForbid CONSTRAINT CRITICAL] 1700000000000 exEvalCode
          (ascii ''a.txt'') (ascii ''plaintext'')
          (newCodeValidator [exForbid CONSTRAINT CRITICAL] (Some [exForbid CONSTRAINT CRITICAL])))) =
     [toValidationIssue (forbiddenArchIssue (exForbid CONSTRAINT CRITICAL) (ascii ''eval('')),
      forbiddenIssue (exForbid CONSTRAINT CRITICAL) (ascii ''eval('')] \<and>
   \<not> passed (fst (validateCode exEnv [exForbid CONSTRAINT CRITICAL] 1700000000000 exEvalCode
          (ascii ''a.txt'') (ascii ''plaintext'')
          (newCodeValidator [exForbid CONSTRAINT CRITICAL] (Some [exForbid CONSTRAINT CRITICAL]))))"
    unfolding r c using p by (simp add: resultOf_def)
  show ?thesis
    using validateCode_deterministic[OF t(1), of exEnv "[exForbid CONSTRAINT CRITICAL]" 1700000005000
        exEvalCode "ascii ''a.txt''" "ascii ''plaintext''" "[exForbid CONSTRAINT CRITICAL]"
        "[exForbid CONSTRAINT CRITICAL]"] t q
    by simp
qed

end
